theory Spec2Isabelle
  imports Complex_Main
begin

section \<open>Python values, exceptions and the library boundary\<close>

text \<open>
  The repository is Python. Values that travel through its dictionaries (plan steps,
  step results, execution results, filter values) are JSON-like; a dictionary is an
  association list in insertion order.
\<close>

datatype pyval =
    PNone
  | PBool bool
  | PInt int
  | PFloat real
  | PStr string
  | PList "pyval list"
  | PDict "(string \<times> pyval) list"

type_synonym pydict = "(string \<times> pyval) list"

text \<open>
  Every handler of the repository is \<^verbatim>\<open>except Exception\<close>. Python only routes
  instances of \<^verbatim>\<open>Exception\<close> there; \<^verbatim>\<open>SystemExit\<close>, \<^verbatim>\<open>KeyboardInterrupt\<close> and
  \<^verbatim>\<open>GeneratorExit\<close> derive from \<^verbatim>\<open>BaseException\<close> alone and pass through such a
  handler. An exception carries the name of its class and \<^verbatim>\<open>str(e)\<close>. Forming
  \<^verbatim>\<open>str(e)\<close> can itself raise, as for \<^verbatim>\<open>ValueError(10**5000)\<close>, whose argument is
  too long an integer to print: \<open>PyExceptionNoStr\<close> is such an instance of
  \<^verbatim>\<open>Exception\<close>, with the exception that \<^verbatim>\<open>str(e)\<close> raises.
\<close>

datatype py_exc =
    PyException string string
  | PyBaseException string string
  | PyExceptionNoStr string py_exc

text \<open>
  A cell of a pandas frame read from a TSV file: a missing value, a finite number (of an
  \<^verbatim>\<open>int64\<close> or a \<^verbatim>\<open>float64\<close> column; the infinities are left out), a truth
  value or a string.
\<close>

datatype cell = NaN | Num real | Bool bool | Str string

record table =
  columns :: "string list"
  rows :: "cell list list"

text \<open>
  What the code asks of Python and pandas and cannot be written down here in full is a
  parameter:
  \<^item> \<open>py_repr\<close> is \<^verbatim>\<open>str(v)\<close> on numbers, lists and dictionaries, which raises
    for an integer of more than 4300 digits (\<^verbatim>\<open>ValueError\<close>) and for a list nested too
    deep (\<^verbatim>\<open>RecursionError\<close>);
  \<^item> \<open>repr_str\<close> is \<^verbatim>\<open>repr(s)\<close> of a string, and \<open>path_str\<close> is
    \<^verbatim>\<open>str(Path(s))\<close>, which drops \<^verbatim>\<open>./\<close> and folds \<^verbatim>\<open>//\<close>;
  \<^item> \<open>fmt_num\<close> is the text \<^verbatim>\<open>astype(str)\<close> gives a number;
  \<^item> \<open>parse_num\<close> is the number \<^verbatim>\<open>pd.to_numeric(..., errors="coerce")\<close> reads in a
    string (\<open>None\<close> where it coerces to NaN);
  \<^item> \<open>to_float\<close> is the \<^verbatim>\<open>float64\<close> nearest to a number, as \<^verbatim>\<open>describe()\<close>
    converts the values of an integer column;
  \<^item> \<open>re_compile\<close> is \<^verbatim>\<open>re.compile(pat, re.IGNORECASE)\<close>: either the message of
    \<^verbatim>\<open>re.error\<close> or the predicate \<^verbatim>\<open>pat.search(s) is not None\<close>.
\<close>

record pylib =
  py_repr :: "pyval \<Rightarrow> py_exc + string"
  repr_str :: "string \<Rightarrow> string"
  path_str :: "string \<Rightarrow> string"
  fmt_num :: "real \<Rightarrow> string"
  parse_num :: "string \<Rightarrow> real option"
  to_float :: "real \<Rightarrow> real"
  re_compile :: "string \<Rightarrow> string + (string \<Rightarrow> bool)"

text \<open>\<^verbatim>\<open>str(v)\<close>: the exception it raises, or the text.\<close>

definition py_str :: "pylib \<Rightarrow> pyval \<Rightarrow> py_exc + string" where
  "py_str L v =
     (case v of
        PStr s \<Rightarrow> Inr s
      | PNone \<Rightarrow> Inr ''None''
      | PBool b \<Rightarrow> Inr (if b then ''True'' else ''False'')
      | _ \<Rightarrow> py_repr L v)"

text \<open>\<^verbatim>\<open>[str(v) for v in vs]\<close>.\<close>

fun str_all :: "pylib \<Rightarrow> pyval list \<Rightarrow> py_exc + string list" where
  "str_all L [] = Inr []"
| "str_all L (v # vs) =
     (case py_str L v of
        Inl e \<Rightarrow> Inl e
      | Inr s \<Rightarrow> (case str_all L vs of Inl e \<Rightarrow> Inl e | Inr ss \<Rightarrow> Inr (s # ss)))"

text \<open>\<^verbatim>\<open>str.lower()\<close>, on ASCII letters; other bytes are kept.\<close>

definition lower_char :: "char \<Rightarrow> char" where
  "lower_char c =
     (let n = (of_char c :: nat) in if 65 \<le> n \<and> n \<le> 90 then char_of (n + 32) else c)"

definition lower :: "string \<Rightarrow> string" where
  "lower s = map lower_char s"

text \<open>\<^verbatim>\<open>p in s\<close> on strings.\<close>

fun starts_with :: "string \<Rightarrow> string \<Rightarrow> bool" where
  "starts_with s [] = True"
| "starts_with [] (c # p) = False"
| "starts_with (d # s) (c # p) = (d = c \<and> starts_with s p)"

fun str_contains :: "string \<Rightarrow> string \<Rightarrow> bool" where
  "str_contains [] p = (p = [])"
| "str_contains (d # s) p = (starts_with (d # s) p \<or> str_contains s p)"

section \<open>Frames\<close>

text \<open>
  \<^verbatim>\<open>df[col]\<close>: the cells of the first column of that name (\<^verbatim>\<open>read_csv\<close> makes the
  names distinct, and pads a short row with missing values). Every \<^verbatim>\<open>df[col]\<close> of the
  code is behind a test that the column exists.
\<close>

fun col_pos :: "string list \<Rightarrow> string \<Rightarrow> nat option" where
  "col_pos [] c = None"
| "col_pos (d # ds) c = (if d = c then Some 0 else map_option Suc (col_pos ds c))"

definition cell_at :: "cell list \<Rightarrow> nat \<Rightarrow> cell" where
  "cell_at r i = (if i < length r then r ! i else NaN)"

definition column :: "table \<Rightarrow> string \<Rightarrow> cell list" where
  "column df c =
     (case col_pos (columns df) c of
        None \<Rightarrow> []
      | Some i \<Rightarrow> map (\<lambda>r. cell_at r i) (rows df))"

text \<open>\<^verbatim>\<open>series.astype(str)\<close> on one cell.\<close>

definition cell_str :: "pylib \<Rightarrow> cell \<Rightarrow> string" where
  "cell_str L c =
     (case c of
        NaN \<Rightarrow> ''nan''
      | Num r \<Rightarrow> fmt_num L r
      | Bool b \<Rightarrow> (if b then ''True'' else ''False'')
      | Str s \<Rightarrow> s)"

text \<open>\<^verbatim>\<open>mask &= other\<close> and \<^verbatim>\<open>df[mask]\<close>.\<close>

definition mask_and :: "bool list \<Rightarrow> bool list \<Rightarrow> bool list" where
  "mask_and m n = map (\<lambda>(a, b). a \<and> b) (zip m n)"

definition select_rows :: "table \<Rightarrow> bool list \<Rightarrow> table" where
  "select_rows df m = df\<lparr>rows := map snd (filter fst (zip m (rows df)))\<rparr>"

section \<open>cohort\_query.py: the filter\<close>

text \<open>
  The loop of \<^verbatim>\<open>_apply_filter\<close> over \<^verbatim>\<open>filter_spec.items()\<close>, with the mask as
  accumulator. \<^verbatim>\<open>Series.str.contains(pat, case=False, na=False)\<close> leaves
  \<^verbatim>\<open>regex=True\<close>, so pandas compiles the pattern first and \<^verbatim>\<open>re.error\<close> leaves the
  function, as does an exception of \<^verbatim>\<open>str(val)\<close>.
\<close>

fun filter_loop :: "pylib \<Rightarrow> table \<Rightarrow> pydict \<Rightarrow> bool list \<Rightarrow> py_exc + bool list" where
  "filter_loop L df [] msk = Inr msk"
| "filter_loop L df ((col, val) # items) msk =
     (if col \<notin> set (columns df) then
        filter_loop L df items (map (\<lambda>b. b \<and> False) msk)
      else
        (let series = map (cell_str L) (column df col) in
           (case val of
              PList vs \<Rightarrow>
                (case str_all L vs of
                   Inl e \<Rightarrow> Inl e
                 | Inr ss \<Rightarrow>
                     filter_loop L df items (mask_and msk (map (\<lambda>s. s \<in> set ss) series)))
            | _ \<Rightarrow>
                (case py_str L val of
                   Inl e \<Rightarrow> Inl e
                 | Inr pat \<Rightarrow>
                     (case re_compile L pat of
                        Inl msg \<Rightarrow> Inl (PyException ''re.error'' msg)
                      | Inr found \<Rightarrow>
                          filter_loop L df items (mask_and msk (map found series)))))))"

text \<open>\<^verbatim>\<open>_apply_filter(df, filter_spec)\<close>; \<open>None\<close> is Python's \<^verbatim>\<open>None\<close>.\<close>

definition apply_filter :: "pylib \<Rightarrow> table \<Rightarrow> pydict option \<Rightarrow> py_exc + table" where
  "apply_filter L df filter_spec =
     (case filter_spec of
        None \<Rightarrow> Inr df
      | Some [] \<Rightarrow> Inr df
      | Some items \<Rightarrow>
          (case filter_loop L df items (map (\<lambda>_. True) (rows df)) of
             Inl e \<Rightarrow> Inl e
           | Inr msk \<Rightarrow> Inr (select_rows df msk)))"

section \<open>cohort\_query.py: plan steps and the cohort context\<close>

text \<open>
  A plan step is a dictionary read only through \<^verbatim>\<open>step.get(key)\<close>, which gives
  \<^verbatim>\<open>None\<close> for a key that is absent: \<open>PNone\<close> and \<open>None\<close> below stand for both.
\<close>

record plan_step =
  step_id :: pyval
  name :: pyval
  tool :: pyval
  tables_used :: "string list option"
  filter_spec :: "pydict option"
  feature :: "string option"

text \<open>
  The context dictionary, with the three keys the code writes. It is read through
  \<^verbatim>\<open>context.get("current_cohort")\<close> alone, so an absent key and \<^verbatim>\<open>None\<close> are the
  same \<open>None\<close>.
\<close>

record cohort_context =
  current_cohort :: "table option"
  current_cohort_table :: "string option"
  current_cohort_patient_id_col :: "string option"

text \<open>\<^verbatim>\<open>x or []\<close> and \<^verbatim>\<open>x or {}\<close>.\<close>

definition or_empty :: "'a list option \<Rightarrow> 'a list" where
  "or_empty x = (case x of None \<Rightarrow> [] | Some xs \<Rightarrow> xs)"

text \<open>
  Lines 72 to 74 and 136 to 138: the first table of the step, with the planner's
  \<^verbatim>\<open>"clinical"\<close> mapped to \<^verbatim>\<open>"patients"\<close> when such a table is loaded.
\<close>

definition pick_table_name :: "string list \<Rightarrow> (string \<rightharpoonup> table) \<Rightarrow> string option" where
  "pick_table_name used tables =
     (let table_name = (case used of [] \<Rightarrow> None | t # _ \<Rightarrow> Some t) in
        if table_name = Some ''clinical'' \<and> tables ''patients'' \<noteq> None
        then Some ''patients'' else table_name)"

text \<open>\<^verbatim>\<open>not table_name or table_name not in tables\<close>; the empty string is falsy.\<close>

definition unknown_table :: "string option \<Rightarrow> (string \<rightharpoonup> table) \<Rightarrow> bool" where
  "unknown_table table_name tables =
     (case table_name of None \<Rightarrow> True | Some n \<Rightarrow> n = [] \<or> tables n = None)"

text \<open>An optional string inside an f-string, and as a dictionary value.\<close>

definition fmt_opt :: "string option \<Rightarrow> string" where
  "fmt_opt x = (case x of None \<Rightarrow> ''None'' | Some s \<Rightarrow> s)"

definition opt_str :: "string option \<Rightarrow> pyval" where
  "opt_str x = (case x of None \<Rightarrow> PNone | Some s \<Rightarrow> PStr s)"

text \<open>\<^verbatim>\<open>series.dropna()\<close> and \<^verbatim>\<open>series.nunique()\<close>, which does not count NaN.\<close>

definition dropna :: "cell list \<Rightarrow> cell list" where
  "dropna cs = filter (\<lambda>c. c \<noteq> NaN) cs"

definition nunique :: "cell list \<Rightarrow> nat" where
  "nunique cs = length (remdups (dropna cs))"

text \<open>Line 88: the columns that may identify a patient.\<close>

definition patient_id_cols :: "table \<Rightarrow> string list" where
  "patient_id_cols df =
     filter (\<lambda>c. str_contains c ''Patient ID'' \<or> lower c = ''patient_id'') (columns df)"

definition execute_cohort_filter_step ::
  "pylib \<Rightarrow> plan_step \<Rightarrow> (string \<rightharpoonup> table) \<Rightarrow> cohort_context
     \<Rightarrow> py_exc + (pydict \<times> cohort_context)" where
  "execute_cohort_filter_step L step tables context =
     (let used = or_empty (tables_used step);
          fspec = or_empty (filter_spec step);
          table_name = pick_table_name used tables
      in
        if unknown_table table_name tables then
          Inr ([(''step_id'', step_id step),
                (''name'', name step),
                (''tool'', tool step),
                (''status'', PStr ''failed''),
                (''error'', PStr (''Unknown table: '' @ fmt_opt table_name))],
               context)
        else
          (let df = the (tables (the table_name)) in
             (case apply_filter L df (Some fspec) of
                Inl e \<Rightarrow> Inl e
              | Inr filtered \<Rightarrow>
                  (let (pid_col, n_patients, sample_ids) =
                         (case patient_id_cols df of
                            p # _ \<Rightarrow>
                              (Some p,
                               Some (nunique (column filtered p)),
                               take 5 (map (cell_str L) (dropna (column filtered p))))
                          | [] \<Rightarrow> (None, None, []));
                       context' = context
                         \<lparr>current_cohort := Some filtered,
                          current_cohort_table := table_name,
                          current_cohort_patient_id_col := pid_col\<rparr>
                   in
                     Inr ([(''step_id'', step_id step),
                           (''name'', name step),
                           (''tool'', tool step),
                           (''status'', PStr ''success''),
                           (''table_used'', opt_str table_name),
                           (''filter_applied'', PDict fspec),
                           (''row_count'', PInt (int (length (rows filtered)))),
                           (''patient_count'',
                              (case n_patients of None \<Rightarrow> PNone | Some n \<Rightarrow> PInt (int n))),
                           (''patient_id_column'', opt_str pid_col),
                           (''sample_patient_ids'', PList (map PStr sample_ids))],
                          context')))))"

section \<open>cohort\_query.py: descriptive statistics\<close>

text \<open>
  \<^verbatim>\<open>pd.to_numeric(series, errors="coerce")\<close> leaves a series of truth values as it is:
  a column that holds truth values and nothing else, and at least one.
\<close>

definition is_bool :: "cell \<Rightarrow> bool" where
  "is_bool c = (case c of Bool b \<Rightarrow> True | _ \<Rightarrow> False)"

definition bool_series :: "cell list \<Rightarrow> bool" where
  "bool_series cs = (cs \<noteq> [] \<and> list_all is_bool cs)"

text \<open>
  On any other column, \<^verbatim>\<open>pd.to_numeric(series, errors="coerce").dropna()\<close>: a truth
  value next to numbers or missing values counts as 1 or 0.
\<close>

definition to_numeric :: "pylib \<Rightarrow> cell \<Rightarrow> real option" where
  "to_numeric L c =
     (case c of
        NaN \<Rightarrow> None
      | Num r \<Rightarrow> Some r
      | Bool b \<Rightarrow> Some (if b then 1 else 0)
      | Str s \<Rightarrow> parse_num L s)"

definition numeric_values :: "pylib \<Rightarrow> cell list \<Rightarrow> real list" where
  "numeric_values L cs = List.map_filter (to_numeric L) cs"

text \<open>
  \<^verbatim>\<open>Series.describe()\<close> on a non-empty numeric series, whose values it takes as
  \<^verbatim>\<open>float64\<close>: the mean, the sample standard deviation (one degree of freedom less, NaN
  below two values) and the quantiles by linear interpolation between the two nearest
  order statistics. The arithmetic on two or more values is that of the reals: the
  rounding inside a sum or a product is not modelled. On a series of truth values
  \<^verbatim>\<open>describe()\<close> gives \<^verbatim>\<open>count\<close>, \<^verbatim>\<open>unique\<close>, \<^verbatim>\<open>top\<close> and \<^verbatim>\<open>freq\<close>, and
  \<^verbatim>\<open>desc["25%"]\<close> at line 174 is a \<^verbatim>\<open>KeyError\<close>.
\<close>

definition mean :: "real list \<Rightarrow> real" where
  "mean xs = sum_list xs / real (length xs)"

definition std :: "real list \<Rightarrow> real option" where
  "std xs =
     (if length xs < 2 then None
      else Some (sqrt (sum_list (map (\<lambda>x. (x - mean xs)\<^sup>2) xs) / real (length xs - 1))))"

definition quantile :: "real list \<Rightarrow> real \<Rightarrow> real" where
  "quantile xs q =
     (let s = sort xs;
          h = real (length s - 1) * q;
          lo = nat \<lfloor>h\<rfloor>;
          hi = min (lo + 1) (length s - 1)
      in s ! lo + (h - real lo) * (s ! hi - s ! lo))"

text \<open>Lines 131 to 150: the frame the statistics are computed on, and its label.\<close>

definition descriptives_source ::
  "plan_step \<Rightarrow> (string \<rightharpoonup> table) \<Rightarrow> cohort_context \<Rightarrow> pydict + (table \<times> string)" where
  "descriptives_source step tables context =
     (case current_cohort context of
        Some cohort_df \<Rightarrow> Inr (cohort_df, ''current_cohort'')
      | None \<Rightarrow>
          (let table_name = pick_table_name (or_empty (tables_used step)) tables in
             if unknown_table table_name tables then
               Inl [(''step_id'', step_id step),
                    (''name'', name step),
                    (''tool'', tool step),
                    (''status'', PStr ''failed''),
                    (''error'', PStr (''No cohort and unknown table: '' @ fmt_opt table_name))]
             else Inr (the (tables (the table_name)), ''table:'' @ the table_name)))"

text \<open>Lines 152 to 194: the statistics of one feature of that frame.\<close>

definition describe_feature :: "pylib \<Rightarrow> plan_step \<Rightarrow> table \<Rightarrow> string \<Rightarrow> py_exc + pydict" where
  "describe_feature L step cohort_df source =
     (if feature step = None \<or> feature step = Some [] \<or>
         the (feature step) \<notin> set (columns cohort_df) then
        Inr [(''step_id'', step_id step),
             (''name'', name step),
             (''tool'', tool step),
             (''status'', PStr ''failed''),
             (''source'', PStr source),
             (''error'', PStr (''Feature column not found: '' @ fmt_opt (feature step)))]
      else
        (let f = the (feature step);
             cells = column cohort_df f
         in
           if bool_series cells then
             Inl (PyException ''KeyError'' ([CHR 0x27] @ ''25%'' @ [CHR 0x27]))
           else if numeric_values L cells = [] then
             Inr [(''step_id'', step_id step),
                  (''name'', name step),
                  (''tool'', tool step),
                  (''status'', PStr ''failed''),
                  (''source'', PStr source),
                  (''error'', PStr (''No numeric values available for feature: '' @ f))]
           else
             (let series = map (to_float L) (numeric_values L cells) in
                Inr [(''step_id'', step_id step),
                     (''name'', name step),
                     (''tool'', tool step),
                     (''status'', PStr ''success''),
                     (''source'', PStr source),
                     (''feature'', PStr f),
                     (''metrics'', PDict
                        [(''count'', PInt (int (length series))),
                         (''mean'', PFloat (mean series)),
                         (''std'', (case std series of None \<Rightarrow> PNone | Some d \<Rightarrow> PFloat d)),
                         (''min'', PFloat (Min (set series))),
                         (''max'', PFloat (Max (set series))),
                         (''median'', PFloat (quantile series (1 / 2))),
                         (''iqr'', PList [PFloat (quantile series (1 / 4)),
                                          PFloat (quantile series (3 / 4))])])])))"

definition execute_feature_descriptives_step ::
  "pylib \<Rightarrow> plan_step \<Rightarrow> (string \<rightharpoonup> table) \<Rightarrow> cohort_context
     \<Rightarrow> py_exc + (pydict \<times> cohort_context)" where
  "execute_feature_descriptives_step L step tables context =
     (case descriptives_source step tables context of
        Inl failed \<Rightarrow> Inr (failed, context)
      | Inr (cohort_df, source) \<Rightarrow>
          (case describe_feature L step cohort_df source of
             Inl e \<Rightarrow> Inl e
           | Inr result \<Rightarrow> Inr (result, context)))"

section \<open>cohort\_query.py and chunking.py: loading tables\<close>

text \<open>
  The files: no entry where the path does not exist, and otherwise what
  \<^verbatim>\<open>pd.read_csv(path, sep="\\t")\<close> does with the file: the exception it raises
  (\<^verbatim>\<open>EmptyDataError\<close>, \<^verbatim>\<open>ParserError\<close>, \<^verbatim>\<open>UnicodeDecodeError\<close>,
  \<^verbatim>\<open>IsADirectoryError\<close>, ...) or the frame it reads. For a path that does not exist
  \<^verbatim>\<open>read_csv\<close> raises the \<^verbatim>\<open>FileNotFoundError\<close> of \<^verbatim>\<open>open\<close>, whose text holds the
  \<^verbatim>\<open>repr\<close> of the path.
\<close>

type_synonym filesystem = "string \<rightharpoonup> py_exc + table"

definition read_csv :: "pylib \<Rightarrow> filesystem \<Rightarrow> string \<Rightarrow> py_exc + table" where
  "read_csv L fs path =
     (case fs path of
        None \<Rightarrow>
          Inl (PyException ''FileNotFoundError''
                 (''[Errno 2] No such file or directory: '' @ repr_str L path))
      | Some r \<Rightarrow> r)"

text \<open>
  \<^verbatim>\<open>_load_table\<close> under \<^verbatim>\<open>@lru_cache(maxsize=16)\<close>: the cache is a list of the
  loaded paths, the most recently used first; a call that raises stores nothing.
\<close>

type_synonym table_cache = "(string \<times> table) list"

definition load_table ::
  "pylib \<Rightarrow> filesystem \<Rightarrow> table_cache \<Rightarrow> string \<Rightarrow> (py_exc + table) \<times> table_cache" where
  "load_table L fs cache path =
     (case map_of cache path of
        Some t \<Rightarrow> (Inr t, (path, t) # filter (\<lambda>e. fst e \<noteq> path) cache)
      | None \<Rightarrow>
          (case read_csv L fs path of
             Inl e \<Rightarrow> (Inl e, cache)
           | Inr t \<Rightarrow> (Inr t, take 16 ((path, t) # cache))))"

record table_config =
  cfg_name :: string
  cfg_path :: string
  id_column :: string
  text_columns :: "string list option"

text \<open>\<^verbatim>\<open>load_tables_from_config\<close>: the loop over \<^verbatim>\<open>config.tables\<close>.\<close>

fun load_tables ::
  "pylib \<Rightarrow> filesystem \<Rightarrow> table_config list \<Rightarrow> (string \<rightharpoonup> table) \<Rightarrow> table_cache
     \<Rightarrow> py_exc + ((string \<rightharpoonup> table) \<times> table_cache)" where
  "load_tables L fs [] tables cache = Inr (tables, cache)"
| "load_tables L fs (t # ts) tables cache =
     (case load_table L fs cache (cfg_path t) of
        (Inl e, cache') \<Rightarrow> Inl e
      | (Inr df, cache') \<Rightarrow> load_tables L fs ts (tables(cfg_name t \<mapsto> df)) cache')"

definition load_tables_from_config ::
  "pylib \<Rightarrow> filesystem \<Rightarrow> table_config list \<Rightarrow> table_cache
     \<Rightarrow> py_exc + ((string \<rightharpoonup> table) \<times> table_cache)" where
  "load_tables_from_config L fs cfgs cache = load_tables L fs cfgs Map.empty cache"

text \<open>chunking.py, \<^verbatim>\<open>infer_text_columns\<close>.\<close>

definition infer_text_columns :: "table \<Rightarrow> table_config \<Rightarrow> string list" where
  "infer_text_columns df table_cfg =
     (case text_columns table_cfg of
        Some (c # cs) \<Rightarrow> c # cs
      | _ \<Rightarrow> filter (\<lambda>c. c \<noteq> id_column table_cfg) (columns df))"

record row_doc =
  doc_id :: string
  doc_text :: string
  doc_metadata :: pydict

text \<open>\<^verbatim>\<open>"\\n".join(parts)\<close>.\<close>

fun join_lines :: "string list \<Rightarrow> string" where
  "join_lines [] = []"
| "join_lines [p] = p"
| "join_lines (p # q # ps) = p @ [CHR 0x0A] @ join_lines (q # ps)"

text \<open>
  One row of \<^verbatim>\<open>_load_table_rows_as_text\<close>; \<^verbatim>\<open>row[col]\<close> of a column the frame
  does not have is a \<^verbatim>\<open>KeyError\<close>.
\<close>

definition row_as_text ::
  "pylib \<Rightarrow> table_config \<Rightarrow> table \<Rightarrow> string list \<Rightarrow> nat \<times> cell list \<Rightarrow> py_exc + row_doc" where
  "row_as_text L table_cfg df text_cols ir =
     (let (idx, row) = ir;
          cell_of = (\<lambda>c. cell_at row (the (col_pos (columns df) c)));
          row_id = cell_str L (cell_of (id_column table_cfg))
      in
        (case filter (\<lambda>c. c \<notin> set (columns df)) text_cols of
           c # _ \<Rightarrow> Inl (PyException ''KeyError'' ([CHR 0x27] @ c @ [CHR 0x27]))
         | [] \<Rightarrow>
             Inr \<lparr>doc_id = row_id,
                  doc_text = join_lines
                    (map (\<lambda>c. c @ '': '' @ cell_str L (cell_of c))
                       (filter (\<lambda>c. cell_of c \<noteq> NaN) text_cols)),
                  doc_metadata =
                    [(''source'', PStr ''msk_chord''),
                     (''table_name'', PStr (cfg_name table_cfg)),
                     (''id_column'', PStr (id_column table_cfg)),
                     (''row_id'', PStr row_id),
                     (''row_index'', PInt (int idx))]\<rparr>))"

fun rows_as_text ::
  "pylib \<Rightarrow> table_config \<Rightarrow> table \<Rightarrow> string list \<Rightarrow> (nat \<times> cell list) list
     \<Rightarrow> py_exc + row_doc list" where
  "rows_as_text L table_cfg df text_cols [] = Inr []"
| "rows_as_text L table_cfg df text_cols (ir # irs) =
     (case row_as_text L table_cfg df text_cols ir of
        Inl e \<Rightarrow> Inl e
      | Inr d \<Rightarrow>
          (case rows_as_text L table_cfg df text_cols irs of
             Inl e \<Rightarrow> Inl e
           | Inr ds \<Rightarrow> Inr (d # ds)))"

text \<open>\<^verbatim>\<open>str(xs)\<close> of a list of strings: the \<^verbatim>\<open>repr\<close> of each, between brackets.\<close>

fun join_commas :: "string list \<Rightarrow> string" where
  "join_commas [] = []"
| "join_commas [p] = p"
| "join_commas (p # q # ps) = p @ '', '' @ join_commas (q # ps)"

definition str_of_strings :: "pylib \<Rightarrow> string list \<Rightarrow> string" where
  "str_of_strings L xs = ''['' @ join_commas (map (repr_str L) xs) @ '']''"

text \<open>
  \<^verbatim>\<open>_load_table_rows_as_text\<close> goes through \<^verbatim>\<open>Path(table_cfg.path)\<close>: the file it
  tests and reads, and the path in its message, are those of \<^verbatim>\<open>str(Path(...))\<close>.
\<close>

definition load_table_rows_as_text ::
  "pylib \<Rightarrow> filesystem \<Rightarrow> table_config \<Rightarrow> py_exc + row_doc list" where
  "load_table_rows_as_text L fs table_cfg =
     (let path = path_str L (cfg_path table_cfg) in
        if fs path = None then
          Inl (PyException ''FileNotFoundError'' (''TSV file not found: '' @ path))
        else
          (case read_csv L fs path of
             Inl e \<Rightarrow> Inl e
           | Inr df \<Rightarrow>
               if id_column table_cfg \<notin> set (columns df) then
                 Inl (PyException ''ValueError''
                        (''id_column='' @ [CHR 0x27] @ id_column table_cfg @ [CHR 0x27]
                           @ '' not in columns for table '' @ [CHR 0x27] @ cfg_name table_cfg
                           @ [CHR 0x27] @ '': '' @ str_of_strings L (columns df)))
               else
                 rows_as_text L table_cfg df (infer_text_columns df table_cfg)
                   (zip [0 ..< length (rows df)] (rows df))))"

section \<open>multi\_agent\_rwe\_graph.py: the four stages\<close>

text \<open>
  \<^verbatim>\<open>ChatState\<close> is a \<^verbatim>\<open>TypedDict\<close> with \<^verbatim>\<open>total=False\<close>: every key may be
  absent. A node returns the keys it sets, and the graph writes them over the state.
\<close>

record chat_state =
  user_query :: "string option"
  oncologist_view :: "pyval option"
  plan :: "pyval option"
  execution_result :: "pydict option"
  final_answer :: "string option"
  analyst_generated_code :: "string option"
  analyst_error :: "string option"

definition no_keys :: chat_state where
  "no_keys =
     \<lparr>user_query = None, oncologist_view = None, plan = None, execution_result = None,
      final_answer = None, analyst_generated_code = None, analyst_error = None\<rparr>"

definition over :: "'a option \<Rightarrow> 'a option \<Rightarrow> 'a option" where
  "over old new = (case new of None \<Rightarrow> old | Some v \<Rightarrow> Some v)"

definition merge_state :: "chat_state \<Rightarrow> chat_state \<Rightarrow> chat_state" where
  "merge_state s p =
     \<lparr>user_query = over (user_query s) (user_query p),
      oncologist_view = over (oncologist_view s) (oncologist_view p),
      plan = over (plan s) (plan p),
      execution_result = over (execution_result s) (execution_result p),
      final_answer = over (final_answer s) (final_answer p),
      analyst_generated_code = over (analyst_generated_code s) (analyst_generated_code p),
      analyst_error = over (analyst_error s) (analyst_error p)\<rparr>"

text \<open>
  What \<^verbatim>\<open>exec(code, {}, local_ns)\<close> leaves under \<^verbatim>\<open>"run_analysis"\<close>: nothing, a
  value that is not callable, or a callable, given by what calling it does.
\<close>

datatype ns_entry = Undefined | NotCallable | Callable "py_exc + pyval"

text \<open>
  The generative backend and the interpreter, as the graph sees them: the four
  functions of llm.py, each either raising or returning, and \<^verbatim>\<open>exec\<close>. The
  configuration is fixed when the graph is built.
\<close>

record backend =
  generate_oncologist_view :: "string \<Rightarrow> py_exc + pyval"
  generate_planner_plan :: "string \<Rightarrow> pyval \<Rightarrow> py_exc + pyval"
  generate_analyst_code :: "string \<Rightarrow> pyval \<Rightarrow> pyval \<Rightarrow> py_exc + string"
  py_exec :: "string \<Rightarrow> py_exc + ns_entry"
  generate_writer_answer :: "string \<Rightarrow> pyval \<Rightarrow> pyval \<Rightarrow> pyval \<Rightarrow> py_exc + string"

text \<open>\<^verbatim>\<open>state["key"]\<close> and \<^verbatim>\<open>state.get("key", {})\<close>.\<close>

definition key_error :: "string \<Rightarrow> py_exc" where
  "key_error k = PyException ''KeyError'' ([CHR 0x27] @ k @ [CHR 0x27])"

definition get_or_empty :: "pyval option \<Rightarrow> pyval" where
  "get_or_empty x = (case x of None \<Rightarrow> PDict [] | Some v \<Rightarrow> v)"

definition oncologist_node :: "backend \<Rightarrow> chat_state \<Rightarrow> py_exc + chat_state" where
  "oncologist_node B state =
     (case user_query state of
        None \<Rightarrow> Inl (key_error ''user_query'')
      | Some q \<Rightarrow>
          (case generate_oncologist_view B q of
             Inl e \<Rightarrow> Inl e
           | Inr view \<Rightarrow> Inr (no_keys\<lparr>oncologist_view := Some view\<rparr>)))"

definition planner_node :: "backend \<Rightarrow> chat_state \<Rightarrow> py_exc + chat_state" where
  "planner_node B state =
     (case user_query state of
        None \<Rightarrow> Inl (key_error ''user_query'')
      | Some q \<Rightarrow>
          (case oncologist_view state of
             None \<Rightarrow> Inl (key_error ''oncologist_view'')
           | Some view \<Rightarrow>
               (case generate_planner_plan B q view of
                  Inl e \<Rightarrow> Inl e
                | Inr p \<Rightarrow> Inr (no_keys\<lparr>plan := Some p\<rparr>))))"

text \<open>Lines 96 to 100, the body of the second \<^verbatim>\<open>try\<close>.\<close>

definition run_generated :: "backend \<Rightarrow> string \<Rightarrow> py_exc + pyval" where
  "run_generated B code =
     (case py_exec B code of
        Inl e \<Rightarrow> Inl e
      | Inr Undefined \<Rightarrow>
          Inl (PyException ''RuntimeError'' ''Generated code did not define run_analysis()'')
      | Inr NotCallable \<Rightarrow>
          Inl (PyException ''RuntimeError'' ''Generated code did not define run_analysis()'')
      | Inr (Callable r) \<Rightarrow> r)"

text \<open>
  Lines 115 to 131, which stand after both \<^verbatim>\<open>try\<close> statements: an exception of
  \<^verbatim>\<open>str(result)\<close> at line 121 leaves the stage.
\<close>

definition normalize_result :: "pylib \<Rightarrow> string \<Rightarrow> pyval \<Rightarrow> py_exc + pydict" where
  "normalize_result L code result =
     (case result of
        PDict d \<Rightarrow>
          Inr [(''steps'', (case map_of d ''steps'' of None \<Rightarrow> PList [] | Some v \<Rightarrow> v)),
               (''overall_status'',
                  (case map_of d ''overall_status'' of None \<Rightarrow> PStr ''success'' | Some v \<Rightarrow> v)),
               (''notes'', PStr ''Analyst executed a dynamically generated analysis script.'')]
      | _ \<Rightarrow>
          (case py_str L result of
             Inl e \<Rightarrow> Inl e
           | Inr raw \<Rightarrow>
               Inr [(''steps'', PList []),
                    (''overall_status'', PStr ''failed''),
                    (''notes'', PStr ''Generated analysis code did not return a dict.''),
                    (''raw_return'', PStr raw),
                    (''generated_code'', PStr (take 4000 code))]))"

text \<open>
  \<^verbatim>\<open>analyst_node_smart\<close>. Both handlers form \<^verbatim>\<open>str(e)\<close> inside the
  \<^verbatim>\<open>except\<close> block (lines 86 and 106): where that raises, the new exception leaves the
  stage.
\<close>

definition analyst_node_smart :: "pylib \<Rightarrow> backend \<Rightarrow> chat_state \<Rightarrow> py_exc + chat_state" where
  "analyst_node_smart L B state =
     (case user_query state of
        None \<Rightarrow> Inl (key_error ''user_query'')
      | Some q \<Rightarrow>
          (case generate_analyst_code B q (get_or_empty (oncologist_view state))
                  (get_or_empty (plan state)) of
             Inl (PyBaseException c msg) \<Rightarrow> Inl (PyBaseException c msg)
           | Inl (PyExceptionNoStr c e) \<Rightarrow> Inl e
           | Inl (PyException c msg) \<Rightarrow>
               Inr (no_keys
                 \<lparr>execution_result := Some
                    [(''steps'', PList []),
                     (''overall_status'', PStr ''failed''),
                     (''notes'', PStr ''Code generation for Analyst failed.''),
                     (''error'', PStr msg)],
                  analyst_error := Some msg\<rparr>)
           | Inr code \<Rightarrow>
               (case run_generated B code of
                  Inl (PyBaseException c msg) \<Rightarrow> Inl (PyBaseException c msg)
                | Inl (PyExceptionNoStr c e) \<Rightarrow> Inl e
                | Inl (PyException c msg) \<Rightarrow>
                    Inr (no_keys
                      \<lparr>execution_result := Some
                         [(''steps'', PList []),
                          (''overall_status'', PStr ''failed''),
                          (''notes'', PStr ''Execution of generated analysis code failed.''),
                          (''error'', PStr msg),
                          (''generated_code'', PStr (take 4000 code))],
                       analyst_generated_code := Some (take 4000 code),
                       analyst_error := Some msg\<rparr>)
                | Inr result \<Rightarrow>
                    (case normalize_result L code result of
                       Inl e \<Rightarrow> Inl e
                     | Inr execution_result' \<Rightarrow>
                         Inr (no_keys
                           \<lparr>execution_result := Some execution_result',
                            analyst_generated_code := Some (take 4000 code)\<rparr>)))))"

definition analyst_node_dumb :: "chat_state \<Rightarrow> py_exc + chat_state" where
  "analyst_node_dumb state =
     Inr (no_keys
       \<lparr>execution_result := Some
          [(''steps'', PList []),
           (''overall_status'', PStr ''failed''),
           (''notes'', PStr ''Dumb analyst not implemented; enable use_smart_analyst=True.'')]\<rparr>)"

definition writer_node :: "backend \<Rightarrow> chat_state \<Rightarrow> py_exc + chat_state" where
  "writer_node B state =
     (case user_query state of
        None \<Rightarrow> Inl (key_error ''user_query'')
      | Some q \<Rightarrow>
          (case generate_writer_answer B q (get_or_empty (oncologist_view state))
                  (get_or_empty (plan state))
                  (case execution_result state of None \<Rightarrow> PDict [] | Some r \<Rightarrow> PDict r) of
             Inl e \<Rightarrow> Inl e
           | Inr answer \<Rightarrow> Inr (no_keys\<lparr>final_answer := Some answer\<rparr>)))"

text \<open>
  The compiled graph: oncologist, planner, analyst, writer, in that order. An exception
  that leaves a node leaves \<^verbatim>\<open>graph.invoke\<close>.
\<close>

definition then_node ::
  "py_exc + chat_state \<Rightarrow> (chat_state \<Rightarrow> py_exc + chat_state) \<Rightarrow> py_exc + chat_state" where
  "then_node r node =
     (case r of
        Inl e \<Rightarrow> Inl e
      | Inr s \<Rightarrow> (case node s of Inl e \<Rightarrow> Inl e | Inr p \<Rightarrow> Inr (merge_state s p)))"

definition invoke_graph :: "pylib \<Rightarrow> backend \<Rightarrow> bool \<Rightarrow> chat_state \<Rightarrow> py_exc + chat_state" where
  "invoke_graph L B use_smart_analyst state =
     then_node
       (then_node
          (then_node
             (then_node (Inr state) (oncologist_node B))
             (planner_node B))
          (if use_smart_analyst then analyst_node_smart L B else analyst_node_dumb))
       (writer_node B)"

section \<open>Concrete inputs\<close>

text \<open>
  A library instance for the concrete inputs below, fixing only what they use:
  \<^item> the pattern \<^verbatim>\<open>(\<close> does not compile (\<^verbatim>\<open>re.error\<close>), and a pattern of
    letters, digits and spaces is searched as such, ignoring case;
  \<^item> \<^verbatim>\<open>str\<close> of an integer of more than 4300 digits raises \<^verbatim>\<open>ValueError\<close>;
  \<^item> the \<^verbatim>\<open>float64\<close> nearest to \<open>2\<^sup>5\<^sup>3 + 1\<close> is \<open>2\<^sup>5\<^sup>3\<close>, and the other numbers
    below are \<^verbatim>\<open>float64\<close> values already;
  \<^item> the \<^verbatim>\<open>repr\<close> of a string without quotes or backslashes is the string between
    quotes, and a path without \<^verbatim>\<open>./\<close> or \<^verbatim>\<open>//\<close> is written as it is.
  No input below prints a smaller number or a list, or reads a number in a string.
\<close>

definition int_too_long :: py_exc where
  "int_too_long =
     PyException ''ValueError''
       ''Exceeds the limit (4300 digits) for integer string conversion; use sys.set_int_max_str_digits() to increase the limit''"

definition int_max_str :: int where
  "int_max_str = 10 ^ 4300"

definition sample_lib :: pylib where
  "sample_lib =
     \<lparr>py_repr = (\<lambda>v. case v of
         PInt i \<Rightarrow> (if int_max_str \<le> i \<or> i \<le> - int_max_str then Inl int_too_long else Inr [])
       | _ \<Rightarrow> Inr []),
      repr_str = (\<lambda>s. [CHR 0x27] @ s @ [CHR 0x27]),
      path_str = (\<lambda>s. s),
      fmt_num = (\<lambda>r. []),
      parse_num = (\<lambda>s. None),
      to_float = (\<lambda>x. if x = 9007199254740993 then 9007199254740992 else x),
      re_compile = (\<lambda>p.
        if p = ''('' then Inl ''missing ), unterminated subpattern at position 0''
        else Inr (\<lambda>s. str_contains (lower s) (lower p)))\<rparr>"

definition patients :: table where
  "patients =
     \<lparr>columns = [''Patient ID'', ''Stage'', ''TMB''],
      rows = [[Str ''P1'', Str ''Stage 4'', Num 2],
              [Str ''P2'', Str ''Stage 1'', Num 10],
              [Str ''P3'', Str ''Stage 4'', NaN]]\<rparr>"

definition samples :: table where
  "samples =
     \<lparr>columns = [''Sample'', ''Stage''],
      rows = [[Str ''S1'', Str ''Stage 4''], [Str ''S2'', Str ''Stage 1'']]\<rparr>"

definition sample_tables :: "string \<rightharpoonup> table" where
  "sample_tables = [''patients'' \<mapsto> patients, ''samples'' \<mapsto> samples]"

definition no_context :: cohort_context where
  "no_context =
     \<lparr>current_cohort = None, current_cohort_table = None,
      current_cohort_patient_id_col = None\<rparr>"

definition stage4_step :: plan_step where
  "stage4_step =
     \<lparr>step_id = PInt 1, name = PStr ''cohort'', tool = PStr ''cohort_sql'',
      tables_used = Some [''clinical''],
      filter_spec = Some [(''Stage'', PStr ''stage 4'')],
      feature = None\<rparr>"

definition tmb_step :: plan_step where
  "tmb_step =
     \<lparr>step_id = PInt 2, name = PStr ''tmb'', tool = PStr ''feature_descriptives'',
      tables_used = None, filter_spec = None, feature = Some ''TMB''\<rparr>"

definition nowhere_step :: plan_step where
  "nowhere_step =
     \<lparr>step_id = PInt 1, name = PStr ''cohort'', tool = PStr ''cohort_sql'',
      tables_used = Some [''labs''],
      filter_spec = Some [(''Stage'', PStr ''stage 4'')],
      feature = None\<rparr>"

definition stage4_context :: cohort_context where
  "stage4_context =
     \<lparr>current_cohort = Some (patients\<lparr>rows := [[Str ''P1'', Str ''Stage 4'', Num 2],
                                                [Str ''P3'', Str ''Stage 4'', NaN]]\<rparr>),
      current_cohort_table = Some ''patients'',
      current_cohort_patient_id_col = Some ''Patient ID''\<rparr>"

definition stage_step :: plan_step where
  "stage_step = tmb_step\<lparr>feature := Some ''Stage''\<rparr>"

definition samples_step :: plan_step where
  "samples_step = stage4_step\<lparr>tables_used := Some [''samples'']\<rparr>"

definition stage4_cohort :: table where
  "stage4_cohort =
     patients\<lparr>rows := [[Str ''P1'', Str ''Stage 4'', Num 2], [Str ''P3'', Str ''Stage 4'', NaN]]\<rparr>"

definition query_state :: chat_state where
  "query_state = no_keys\<lparr>user_query := Some ''How many stage 4 patients have TMB data?''\<rparr>"

definition sample_view :: pyval where
  "sample_view = PDict [(''can_be_answered'', PBool True)]"

definition sample_plan :: pyval where
  "sample_plan = PDict [(''execution_plan'', PList [])]"

definition faulty_code_backend :: backend where
  "faulty_code_backend =
     \<lparr>generate_oncologist_view = (\<lambda>q. Inr sample_view),
      generate_planner_plan = (\<lambda>q view. Inr sample_plan),
      generate_analyst_code = (\<lambda>q view p. Inr ''def run_analysis(): return 1 / 0''),
      py_exec = (\<lambda>code. Inr (Callable (Inl (PyException ''ZeroDivisionError'' ''division by zero'')))),
      generate_writer_answer = (\<lambda>q view p r. Inr ''The analysis could not be run.'')\<rparr>"

definition silent_writer_backend :: backend where
  "silent_writer_backend = faulty_code_backend\<lparr>generate_writer_answer := (\<lambda>q view p r. Inr [])\<rparr>"

definition exiting_code_backend :: backend where
  "exiting_code_backend =
     faulty_code_backend\<lparr>py_exec := (\<lambda>code. Inr (Callable (Inl (PyBaseException ''SystemExit'' ''1''))))\<rparr>"



definition patients_config :: table_config where
  "patients_config =
     \<lparr>cfg_name = ''patients'', cfg_path = ''data/patients.tsv'', id_column = ''PATIENT_ID'',
      text_columns = None\<rparr>"

definition sample_fs :: filesystem where
  "sample_fs =
     [''data/patients.tsv'' \<mapsto> Inr patients,
      ''data/empty.tsv'' \<mapsto> Inl (PyException ''EmptyDataError'' ''No columns to parse from file'')]"

definition reads :: table where
  "reads =
     \<lparr>columns = [''Sample'', ''Passed'', ''Reads''],
      rows = [[Str ''S1'', Bool True, Num 9007199254740993]]\<rparr>"

definition reads_context :: cohort_context where
  "reads_context =
     \<lparr>current_cohort = Some reads, current_cohort_table = Some ''reads'',
      current_cohort_patient_id_col = None\<rparr>"

definition reads_step :: plan_step where
  "reads_step = tmb_step\<lparr>feature := Some ''Reads''\<rparr>"

definition passed_step :: plan_step where
  "passed_step = tmb_step\<lparr>feature := Some ''Passed''\<rparr>"

definition unprintable_fault_backend :: backend where
  "unprintable_fault_backend =
     faulty_code_backend
       \<lparr>py_exec := (\<lambda>code. Inr (Callable (Inl (PyExceptionNoStr ''ValueError'' int_too_long))))\<rparr>"

definition long_int :: int where
  "long_int = 10 ^ 5000"

definition long_int_backend :: backend where
  "long_int_backend =
     faulty_code_backend\<lparr>py_exec := (\<lambda>code. Inr (Callable (Inr (PInt long_int))))\<rparr>"

section \<open>Properties of the filter\<close>

text \<open>
  C10: with an empty or null filter specification \<^verbatim>\<open>_apply_filter\<close> is the identity:
  it returns the frame it was given, every row unchanged.
\<close>

theorem apply_filter_empty_identity:
  "apply_filter L df None = Inr df \<and> apply_filter L df (Some []) = Inr df"
  by (simp add: apply_filter_def)

lemma mask_and_all_false:
  "\<forall>b\<in>set m. \<not> b \<Longrightarrow> \<forall>b\<in>set (mask_and m n). \<not> b"
  by (auto simp: mask_and_def dest: set_zip_leftD)

lemma filter_loop_absent_step:
  "col \<notin> set (columns df) \<Longrightarrow>
     filter_loop L df ((col, val) # items) m = filter_loop L df items (map (\<lambda>b. b \<and> False) m)"
  by simp

lemma filter_loop_present_step:
  assumes "col \<in> set (columns df)" "filter_loop L df ((col, val) # items) m = Inr m'"
  shows "\<exists>n. filter_loop L df items (mask_and m n) = Inr m'"
proof (cases "\<exists>vs. val = PList vs")
  case True
  then obtain vs where "val = PList vs" by blast
  with assms show ?thesis by (auto simp: Let_def split: sum.splits)
next
  case False
  with assms have
    "(case py_str L val of
        Inl e \<Rightarrow> Inl e
      | Inr pat \<Rightarrow>
          (case re_compile L pat of
             Inl msg \<Rightarrow> Inl (PyException ''re.error'' msg)
           | Inr found \<Rightarrow>
               filter_loop L df items
                 (mask_and m (map found (map (cell_str L) (column df col)))))) = Inr m'"
    by (cases val) (simp_all add: Let_def)
  then show ?thesis by (auto split: sum.splits)
qed

lemma filter_loop_keeps_false:
  "filter_loop L df items m = Inr m' \<Longrightarrow> \<forall>b\<in>set m. \<not> b \<Longrightarrow> \<forall>b\<in>set m'. \<not> b"
proof (induction items arbitrary: m)
  case Nil
  then show ?case by simp
next
  case (Cons item items)
  obtain col val where item: "item = (col, val)" by (cases item)
  show ?case
  proof (cases "col \<in> set (columns df)")
    case False
    with Cons.prems item
    have "filter_loop L df items (map (\<lambda>b. b \<and> False) m) = Inr m'" by simp
    then show ?thesis by (rule Cons.IH) simp
  next
    case True
    from filter_loop_present_step[OF True] Cons.prems(1) item
    obtain n where "filter_loop L df items (mask_and m n) = Inr m'" by blast
    then show ?thesis
      by (rule Cons.IH) (rule mask_and_all_false[OF Cons.prems(2)])
  qed
qed

lemma filter_loop_absent_column:
  "filter_loop L df items m = Inr m' \<Longrightarrow> col \<in> fst ` set items \<Longrightarrow> col \<notin> set (columns df)
     \<Longrightarrow> \<forall>b\<in>set m'. \<not> b"
proof (induction items arbitrary: m)
  case Nil
  then show ?case by simp
next
  case (Cons item items)
  obtain c val where item: "item = (c, val)" by (cases item)
  show ?case
  proof (cases "c \<in> set (columns df)")
    case False
    with Cons.prems item
    have "filter_loop L df items (map (\<lambda>b. b \<and> False) m) = Inr m'" by simp
    then show ?thesis by (rule filter_loop_keeps_false) simp
  next
    case True
    with Cons.prems(3) have "c \<noteq> col" by blast
    with Cons.prems(2) item have mem: "col \<in> fst ` set items" by auto
    from filter_loop_present_step[OF True] Cons.prems(1) item
    obtain n where "filter_loop L df items (mask_and m n) = Inr m'" by blast
    then show ?thesis using mem Cons.prems(3) by (rule Cons.IH)
  qed
qed

lemma select_rows_all_false: "\<forall>b\<in>set m. \<not> b \<Longrightarrow> rows (select_rows df m) = []"
  by (auto simp: select_rows_def filter_empty_conv dest: set_zip_leftD)

lemma apply_filter_absent_column_no_rows:
  assumes "apply_filter L df (Some items) = Inr out" "col \<in> fst ` set items" "col \<notin> set (columns df)"
  shows "rows out = [] \<and> columns out = columns df"
proof -
  from assms(2) obtain x xs where items: "items = x # xs" by (cases items) auto
  with assms(1) obtain m where m: "filter_loop L df items (map (\<lambda>_. True) (rows df)) = Inr m"
    and out: "out = select_rows df m"
    by (auto simp: apply_filter_def split: sum.splits)
  from filter_loop_absent_column[OF m assms(2,3)] have "\<forall>b\<in>set m. \<not> b" .
  then show ?thesis using out by (simp add: select_rows_all_false) (simp add: select_rows_def)
qed

text \<open>
  C4: a filter specification that names a column the frame does not have gives zero rows
  and never raises. Where \<^verbatim>\<open>_apply_filter\<close> returns, the rows are indeed gone
  (\<open>apply_filter_absent_column_no_rows\<close>). It does not always return: a scalar value
  on a column the frame has goes to \<^verbatim>\<open>str.contains\<close> as a regular expression,
  though the docstring promises a substring match, and a value such as \<^verbatim>\<open>(\<close>
  raises \<^verbatim>\<open>re.error\<close> out of the function, here next to the absent column
  \<^verbatim>\<open>Missing\<close>.
\<close>

theorem apply_filter_absent_column_raises:
  "apply_filter sample_lib patients (Some [(''Missing'', PStr ''x''), (''Stage'', PStr ''('')]) =
     Inl (PyException ''re.error'' ''missing ), unterminated subpattern at position 0'')"
  by (simp add: apply_filter_def sample_lib_def patients_def py_str_def)

section \<open>Properties of the cohort steps\<close>

lemma nunique_card: "nunique cs = card (set cs - {NaN})"
proof -
  have "set (dropna cs) = set cs - {NaN}" by (auto simp: dropna_def)
  then show ?thesis by (simp add: nunique_def length_remdups_card_conv)
qed

lemma filter_first:
  "filter P xs = p # ps \<Longrightarrow> \<exists>pre post. xs = pre @ p # post \<and> (\<forall>c\<in>set pre. \<not> P c) \<and> P p"
  by (metis filter_eq_Cons_iff)

text \<open>
  C9: whenever \<^verbatim>\<open>execute_cohort_filter_step\<close> fails, that is, no table name can be
  resolved or the resolved name is not a loaded table, it returns the failed step result
  together with exactly the context it received: \<open>current_cohort\<close>,
  \<open>current_cohort_table\<close> and \<open>current_cohort_patient_id_col\<close> are unchanged. A
  failed result is returned in no other case.
\<close>

theorem cohort_filter_failure_keeps_context:
  "(unknown_table (pick_table_name (or_empty (tables_used step)) tables) tables \<longrightarrow>
      (\<exists>r. execute_cohort_filter_step L step tables context = Inr (r, context) \<and>
           map_of r ''status'' = Some (PStr ''failed'')))
   \<and> (\<forall>r context'. execute_cohort_filter_step L step tables context = Inr (r, context') \<and>
         map_of r ''status'' = Some (PStr ''failed'') \<longrightarrow>
           context' = context \<and>
           unknown_table (pick_table_name (or_empty (tables_used step)) tables) tables)"
  by (auto simp: execute_cohort_filter_step_def Let_def split: sum.splits list.splits)

theorem cohort_filter_failure_keeps_context_witness:
  "execute_cohort_filter_step sample_lib nowhere_step sample_tables stage4_context =
     Inr ([(''step_id'', PInt 1), (''name'', PStr ''cohort''), (''tool'', PStr ''cohort_sql''),
           (''status'', PStr ''failed''), (''error'', PStr ''Unknown table: labs'')],
          stage4_context)"
proof -
  have "unknown_table (pick_table_name (or_empty (tables_used nowhere_step)) sample_tables)
          sample_tables"
    by (simp add: unknown_table_def pick_table_name_def or_empty_def nowhere_step_def
          sample_tables_def)
  with cohort_filter_failure_keeps_context
         [of nowhere_step sample_tables sample_lib stage4_context]
  obtain r where r:
    "execute_cohort_filter_step sample_lib nowhere_step sample_tables stage4_context =
       Inr (r, stage4_context)"
    by blast
  have "fst (projr (execute_cohort_filter_step sample_lib nowhere_step sample_tables
                      stage4_context)) =
          [(''step_id'', PInt 1), (''name'', PStr ''cohort''), (''tool'', PStr ''cohort_sql''),
           (''status'', PStr ''failed''), (''error'', PStr ''Unknown table: labs'')]"
    by (simp add: execute_cohort_filter_step_def unknown_table_def pick_table_name_def
          or_empty_def nowhere_step_def sample_tables_def fmt_opt_def)
  with r show ?thesis by simp
qed

lemma quantile_single: "quantile [x] q = x"
  by (simp add: quantile_def)

lemma mean_single: "mean [x] = x"
  by (simp add: mean_def)

lemma std_single: "std [x] = None"
  by (simp add: std_def)

lemma reads_columns:
  "column reads ''Reads'' = [Num 9007199254740993]" "column reads ''Passed'' = [Bool True]"
  "''Reads'' \<in> set (columns reads)" "''Passed'' \<in> set (columns reads)"
  by (simp_all add: column_def reads_def cell_at_def)

lemma reads_source:
  "descriptives_source step tables reads_context = Inr (reads, ''current_cohort'')"
  by (simp add: descriptives_source_def reads_context_def)

text \<open>
  C5 says that on a column with exactly one numeric value the mean, the median, the
  minimum and the maximum are that value. The column \<open>Reads\<close> holds the one value
  \<open>2\<^sup>5\<^sup>3 + 1\<close>, and the step returns \<open>2\<^sup>5\<^sup>3\<close>, the
  \<^verbatim>\<open>float64\<close> that \<^verbatim>\<open>describe()\<close> and \<^verbatim>\<open>float(...)\<close> make of it. And on the
  column \<open>Passed\<close>, one truth value, the step returns neither a failed result nor
  metrics: it raises \<^verbatim>\<open>KeyError\<close>.
\<close>

theorem describe_feature_rounds_or_raises:
  "numeric_values sample_lib (column reads ''Reads'') = [9007199254740993]
   \<and> map_of (fst (projr (execute_feature_descriptives_step sample_lib reads_step sample_tables
         reads_context))) ''metrics'' =
       Some (PDict [(''count'', PInt 1), (''mean'', PFloat 9007199254740992), (''std'', PNone),
                   (''min'', PFloat 9007199254740992), (''max'', PFloat 9007199254740992),
                   (''median'', PFloat 9007199254740992),
                   (''iqr'', PList [PFloat 9007199254740992, PFloat 9007199254740992])])
   \<and> execute_feature_descriptives_step sample_lib passed_step sample_tables reads_context =
       Inl (PyException ''KeyError'' (CHR 0x27 # ''25%'' @ [CHR 0x27]))"
proof -
  have n: "numeric_values sample_lib (column reads ''Reads'') = [9007199254740993]"
    by (simp add: reads_columns numeric_values_def to_numeric_def)
  have f: "to_float sample_lib 9007199254740993 = 9007199254740992"
    by (simp add: sample_lib_def)
  have nb: "\<not> bool_series (column reads ''Reads'')" "bool_series (column reads ''Passed'')"
    by (simp_all add: reads_columns bool_series_def is_bool_def)
  have a: "map_of (fst (projr (execute_feature_descriptives_step sample_lib reads_step
         sample_tables reads_context))) ''metrics'' =
       Some (PDict [(''count'', PInt 1), (''mean'', PFloat 9007199254740992), (''std'', PNone),
                   (''min'', PFloat 9007199254740992), (''max'', PFloat 9007199254740992),
                   (''median'', PFloat 9007199254740992),
                   (''iqr'', PList [PFloat 9007199254740992, PFloat 9007199254740992])])"
    unfolding execute_feature_descriptives_step_def reads_source
    by (simp add: describe_feature_def reads_step_def tmb_step_def reads_columns(3) nb(1) n f
          quantile_single mean_single std_single)
  have b: "execute_feature_descriptives_step sample_lib passed_step sample_tables reads_context =
       Inl (PyException ''KeyError'' (CHR 0x27 # ''25%'' @ [CHR 0x27]))"
    unfolding execute_feature_descriptives_step_def reads_source
    by (simp add: describe_feature_def passed_step_def tmb_step_def reads_columns(4) nb(2))
  from n a b show ?thesis by simp
qed

text \<open>
  C5, as the code has it: the \<^verbatim>\<open>feature_descriptives\<close> step on a column that is not a
  column of truth values and holds no numeric value after coercion gives a failed step
  result with an error and no metrics; on such a column with exactly one numeric value it
  gives metrics whose \<open>std\<close> is \<^verbatim>\<open>None\<close> and whose mean, median, minimum and
  maximum (and both quartiles) are all the \<^verbatim>\<open>float64\<close> of that value.
\<close>

theorem describe_feature_few_values:
  assumes "descriptives_source step tables context = Inr (df, src)"
    and "feature step = Some f" and "f \<noteq> []" and "f \<in> set (columns df)"
    and "\<not> bool_series (column df f)"
  shows "(numeric_values L (column df f) = [] \<longrightarrow>
           (\<exists>r. execute_feature_descriptives_step L step tables context = Inr (r, context) \<and>
                map_of r ''status'' = Some (PStr ''failed'') \<and>
                map_of r ''error'' =
                  Some (PStr (''No numeric values available for feature: '' @ f)) \<and>
                map_of r ''metrics'' = None))
       \<and> (\<forall>x. numeric_values L (column df f) = [x] \<longrightarrow>
           (\<exists>r. execute_feature_descriptives_step L step tables context = Inr (r, context) \<and>
                map_of r ''status'' = Some (PStr ''success'') \<and>
                map_of r ''metrics'' = Some (PDict
                  [(''count'', PInt 1), (''mean'', PFloat (to_float L x)), (''std'', PNone),
                   (''min'', PFloat (to_float L x)), (''max'', PFloat (to_float L x)),
                   (''median'', PFloat (to_float L x)),
                   (''iqr'', PList [PFloat (to_float L x), PFloat (to_float L x)])])))"
  using assms
  by (simp add: execute_feature_descriptives_step_def describe_feature_def Let_def
        quantile_single mean_single std_single)

theorem describe_feature_few_values_witness:
  "execute_feature_descriptives_step sample_lib stage_step sample_tables stage4_context =
     Inr ([(''step_id'', PInt 2), (''name'', PStr ''tmb''),
           (''tool'', PStr ''feature_descriptives''),
           (''status'', PStr ''failed''), (''source'', PStr ''current_cohort''),
           (''error'', PStr ''No numeric values available for feature: Stage'')],
          stage4_context)
   \<and> map_of (fst (projr (execute_feature_descriptives_step sample_lib tmb_step sample_tables
         stage4_context))) ''metrics'' =
       Some (PDict [(''count'', PInt 1), (''mean'', PFloat 2), (''std'', PNone),
                   (''min'', PFloat 2), (''max'', PFloat 2), (''median'', PFloat 2),
                   (''iqr'', PList [PFloat 2, PFloat 2])])"
proof -
  let ?df = "the (current_cohort stage4_context)"
  have s1: "descriptives_source stage_step sample_tables stage4_context =
              Inr (?df, ''current_cohort'')"
    by (simp add: descriptives_source_def stage4_context_def)
  have s2: "descriptives_source tmb_step sample_tables stage4_context =
              Inr (?df, ''current_cohort'')"
    by (simp add: descriptives_source_def stage4_context_def)
  have col: "column ?df ''Stage'' = [Str ''Stage 4'', Str ''Stage 4'']"
    "column ?df ''TMB'' = [Num 2, NaN]"
    by (simp_all add: column_def stage4_context_def patients_def cell_at_def)
  have n1: "numeric_values sample_lib (column ?df ''Stage'') = []"
    by (simp add: col numeric_values_def to_numeric_def sample_lib_def)
  have n2: "numeric_values sample_lib (column ?df ''TMB'') = [2]"
    by (simp add: col numeric_values_def to_numeric_def)
  have nb: "\<not> bool_series (column ?df ''Stage'')" "\<not> bool_series (column ?df ''TMB'')"
    by (simp_all add: col bool_series_def is_bool_def)
  have c: "''Stage'' \<in> set (columns ?df)" "''TMB'' \<in> set (columns ?df)"
    by (simp_all add: stage4_context_def patients_def)
  have f1: "feature stage_step = Some ''Stage''" "feature tmb_step = Some ''TMB''"
    by (simp_all add: stage_step_def tmb_step_def)
  have ne: "''Stage'' \<noteq> []" "''TMB'' \<noteq> []" by simp_all
  have fl: "to_float sample_lib 2 = 2" by (simp add: sample_lib_def)
  from describe_feature_few_values[OF s1 f1(1) ne(1) c(1) nb(1), of sample_lib] n1
  obtain r where r:
    "execute_feature_descriptives_step sample_lib stage_step sample_tables stage4_context =
       Inr (r, stage4_context)"
    by auto
  have "fst (projr (execute_feature_descriptives_step sample_lib stage_step sample_tables
          stage4_context)) =
      [(''step_id'', PInt 2), (''name'', PStr ''tmb''), (''tool'', PStr ''feature_descriptives''),
       (''status'', PStr ''failed''), (''source'', PStr ''current_cohort''),
       (''error'', PStr ''No numeric values available for feature: Stage'')]"
    unfolding execute_feature_descriptives_step_def s1
    using n1 c(1) f1(1) nb(1)
    by (simp add: describe_feature_def) (simp add: stage_step_def tmb_step_def)
  with r have a:
    "execute_feature_descriptives_step sample_lib stage_step sample_tables stage4_context =
       Inr ([(''step_id'', PInt 2), (''name'', PStr ''tmb''),
             (''tool'', PStr ''feature_descriptives''),
             (''status'', PStr ''failed''), (''source'', PStr ''current_cohort''),
             (''error'', PStr ''No numeric values available for feature: Stage'')],
            stage4_context)"
    by simp
  from describe_feature_few_values[OF s2 f1(2) ne(2) c(2) nb(2), of sample_lib] n2
  have b: "map_of (fst (projr (execute_feature_descriptives_step sample_lib tmb_step
         sample_tables stage4_context))) ''metrics'' =
       Some (PDict [(''count'', PInt 1), (''mean'', PFloat 2), (''std'', PNone),
                   (''min'', PFloat 2), (''max'', PFloat 2), (''median'', PFloat 2),
                   (''iqr'', PList [PFloat 2, PFloat 2])])"
    by (auto simp: fl)
  from a b show ?thesis by simp
qed

lemma cohort_step_success:
  assumes "pick_table_name (or_empty (tables_used step)) tables = Some n" and "n \<noteq> []"
    and "tables n = Some df"
    and "apply_filter L df (Some (or_empty (filter_spec step))) = Inr filtered"
  shows "execute_cohort_filter_step L step tables context =
     Inr ([(''step_id'', step_id step),
           (''name'', name step),
           (''tool'', tool step),
           (''status'', PStr ''success''),
           (''table_used'', PStr n),
           (''filter_applied'', PDict (or_empty (filter_spec step))),
           (''row_count'', PInt (int (length (rows filtered)))),
           (''patient_count'',
              (case patient_id_cols df of [] \<Rightarrow> PNone
               | p # _ \<Rightarrow> PInt (int (nunique (column filtered p))))),
           (''patient_id_column'', (case patient_id_cols df of [] \<Rightarrow> PNone | p # _ \<Rightarrow> PStr p)),
           (''sample_patient_ids'',
              (case patient_id_cols df of [] \<Rightarrow> PList []
               | p # _ \<Rightarrow> PList (map PStr (take 5 (map (cell_str L) (dropna (column filtered p)))))))],
          context\<lparr>current_cohort := Some filtered,
                  current_cohort_table := Some n,
                  current_cohort_patient_id_col :=
                    (case patient_id_cols df of [] \<Rightarrow> None | p # _ \<Rightarrow> Some p)\<rparr>)"
  using assms
  by (cases "patient_id_cols df")
     (simp_all add: execute_cohort_filter_step_def unknown_table_def opt_str_def)

lemma filter_first_is:
  "xs = pre @ p # post \<Longrightarrow> \<forall>c\<in>set pre. \<not> P c \<Longrightarrow> P p \<Longrightarrow> filter P xs = p # filter P post"
  by (simp add: filter_empty_conv)

lemma lower_stage4: "lower ''Stage 4'' = ''stage 4''" "lower ''Stage 1'' = ''stage 1''"
  "lower ''stage 4'' = ''stage 4''"
  by code_simp+

lemma stage4_pick:
  "pick_table_name (or_empty (tables_used stage4_step)) sample_tables = Some ''patients''"
  "pick_table_name (or_empty (tables_used samples_step)) sample_tables = Some ''samples''"
  by (simp_all add: pick_table_name_def or_empty_def stage4_step_def samples_step_def
        sample_tables_def)

lemma stage4_tables:
  "sample_tables ''patients'' = Some patients" "sample_tables ''samples'' = Some samples"
  by (simp_all add: sample_tables_def)

lemma stage4_filter_patients:
  "apply_filter sample_lib patients (Some (or_empty (filter_spec stage4_step))) = Inr stage4_cohort"
  by (simp add: apply_filter_def or_empty_def stage4_step_def sample_lib_def py_str_def
        patients_def stage4_cohort_def column_def cell_at_def cell_str_def mask_and_def
        select_rows_def lower_stage4)

lemma stage4_filter_samples:
  "apply_filter sample_lib samples (Some (or_empty (filter_spec samples_step))) =
     Inr (samples\<lparr>rows := [[Str ''S1'', Str ''Stage 4'']]\<rparr>)"
  by (simp add: apply_filter_def or_empty_def stage4_step_def samples_step_def sample_lib_def
        py_str_def samples_def column_def cell_at_def cell_str_def mask_and_def
        select_rows_def lower_stage4)

lemma samples_no_id: "patient_id_cols samples = []"
  by code_simp

text \<open>
  C7 says that \<open>patient_count\<close> is omitted from the step result when no column
  identifies the patient. The table \<open>samples\<close> has no such column, and the result of
  the step holds the key \<open>patient_count\<close>, with the value \<^verbatim>\<open>None\<close>.
\<close>

theorem cohort_patient_count_not_omitted:
  "execute_cohort_filter_step sample_lib samples_step sample_tables no_context =
     Inr ([(''step_id'', PInt 1), (''name'', PStr ''cohort''), (''tool'', PStr ''cohort_sql''),
           (''status'', PStr ''success''), (''table_used'', PStr ''samples''),
           (''filter_applied'', PDict [(''Stage'', PStr ''stage 4'')]),
           (''row_count'', PInt 1), (''patient_count'', PNone),
           (''patient_id_column'', PNone), (''sample_patient_ids'', PList [])],
          \<lparr>current_cohort = Some (samples\<lparr>rows := [[Str ''S1'', Str ''Stage 4'']]\<rparr>),
           current_cohort_table = Some ''samples'',
           current_cohort_patient_id_col = None\<rparr>)"
  unfolding cohort_step_success[OF stage4_pick(2) _ stage4_tables(2) stage4_filter_samples, simplified]
  by (simp add: samples_no_id) (simp add: samples_step_def stage4_step_def or_empty_def no_context_def)

text \<open>
  C7, as the code has it: when a column name of the table contains \<^verbatim>\<open>Patient ID\<close>
  (case-sensitive) or equals \<^verbatim>\<open>patient_id\<close> (case-insensitive), the first such column
  is the identifier, and \<open>patient_count\<close> is the number of distinct values, missing
  ones apart, of that column in the filtered cohort; when no such column exists,
  \<open>patient_count\<close> is reported as \<^verbatim>\<open>None\<close>, not as zero, and so is
  \<open>patient_id_column\<close>.
\<close>

theorem cohort_patient_count:
  assumes "pick_table_name (or_empty (tables_used step)) tables = Some n" and "n \<noteq> []"
    and "tables n = Some df"
    and "apply_filter L df (Some (or_empty (filter_spec step))) = Inr filtered"
  shows "\<exists>r context'. execute_cohort_filter_step L step tables context = Inr (r, context') \<and>
      ((\<forall>c\<in>set (columns df). \<not> (str_contains c ''Patient ID'' \<or> lower c = ''patient_id'')) \<longrightarrow>
          map_of r ''patient_count'' = Some PNone \<and> map_of r ''patient_id_column'' = Some PNone) \<and>
      (\<forall>pre p post. columns df = pre @ p # post \<and>
           (\<forall>c\<in>set pre. \<not> (str_contains c ''Patient ID'' \<or> lower c = ''patient_id'')) \<and>
           (str_contains p ''Patient ID'' \<or> lower p = ''patient_id'') \<longrightarrow>
          map_of r ''patient_count'' = Some (PInt (int (card (set (column filtered p) - {NaN})))) \<and>
          map_of r ''patient_id_column'' = Some (PStr p))"
proof -
  let ?P = "\<lambda>c. str_contains c ''Patient ID'' \<or> lower c = ''patient_id''"
  note run = cohort_step_success[OF assms, of "context"]
  have none: "patient_id_cols df = []" if "\<forall>c\<in>set (columns df). \<not> ?P c"
    using that by (simp add: patient_id_cols_def filter_empty_conv)
  have first: "\<exists>ps. patient_id_cols df = p # ps"
    if "columns df = pre @ p # post" "\<forall>c\<in>set pre. \<not> ?P c" "?P p" for pre p post
    using filter_first_is[of "columns df" pre p post ?P, OF that]
    by (simp add: patient_id_cols_def)
  show ?thesis
    unfolding run
    apply (intro exI conjI)
      apply (rule refl)
     apply (simp add: none)
    apply (intro allI impI)
    apply (elim conjE)
    subgoal for pre p post
      using first[of pre p post] by (auto simp: nunique_card)
    done
qed


theorem cohort_patient_count_witness:
  "map_of (fst (projr (execute_cohort_filter_step sample_lib stage4_step sample_tables no_context)))
     ''patient_count'' = Some (PInt 2)"
proof -
  have ne: "''patients'' \<noteq> []" by simp
  from cohort_patient_count[OF stage4_pick(1) ne stage4_tables(1) stage4_filter_patients, of no_context]
  obtain r context' where
    run: "execute_cohort_filter_step sample_lib stage4_step sample_tables no_context = Inr (r, context')"
    and first: "\<And>pre p post. columns patients = pre @ p # post \<Longrightarrow>
           (\<forall>c\<in>set pre. \<not> (str_contains c ''Patient ID'' \<or> lower c = ''patient_id'')) \<Longrightarrow>
           (str_contains p ''Patient ID'' \<or> lower p = ''patient_id'') \<Longrightarrow>
          map_of r ''patient_count'' = Some (PInt (int (card (set (column stage4_cohort p) - {NaN}))))"
    by blast
  have "map_of r ''patient_count'' =
          Some (PInt (int (card (set (column stage4_cohort ''Patient ID'') - {NaN}))))"
    by (rule first[of "[]" _ "[''Stage'', ''TMB'']"]) (simp_all add: patients_def)
  moreover have "set (column stage4_cohort ''Patient ID'') - {NaN} = {Str ''P1'', Str ''P3''}"
    by (auto simp: column_def stage4_cohort_def patients_def cell_at_def)
  ultimately show ?thesis using run by simp
qed

lemma stage4_run:
  "execute_cohort_filter_step sample_lib stage4_step sample_tables no_context =
     Inr ([(''step_id'', PInt 1), (''name'', PStr ''cohort''), (''tool'', PStr ''cohort_sql''),
           (''status'', PStr ''success''), (''table_used'', PStr ''patients''),
           (''filter_applied'', PDict [(''Stage'', PStr ''stage 4'')]),
           (''row_count'', PInt 2), (''patient_count'', PInt 2),
           (''patient_id_column'', PStr ''Patient ID''),
           (''sample_patient_ids'', PList [PStr ''P1'', PStr ''P3''])],
          stage4_context)"
proof -
  have ids: "patient_id_cols patients = [''Patient ID'']" by code_simp
  have col: "column stage4_cohort ''Patient ID'' = [Str ''P1'', Str ''P3'']"
    by (simp add: column_def stage4_cohort_def patients_def cell_at_def)
  show ?thesis
    unfolding cohort_step_success[OF stage4_pick(1) _ stage4_tables(1) stage4_filter_patients, simplified]
    by (simp add: ids col nunique_def dropna_def cell_str_def)
       (simp add: stage4_step_def or_empty_def no_context_def stage4_context_def stage4_cohort_def)
qed

text \<open>
  C6: for every table and filter, a \<^verbatim>\<open>cohort_filter\<close> step on that table followed by a
  \<^verbatim>\<open>feature_descriptives\<close> step (with no table specified, or with any), the context of
  the first call passed to the second, computes the statistics over the cohort the first
  step produced, under the label \<^verbatim>\<open>current_cohort\<close>, and not over the table. In the
  witness the cohort holds one TMB value and the table two.
\<close>

theorem cohort_then_descriptives:
  assumes "pick_table_name (or_empty (tables_used step1)) tables = Some n" and "n \<noteq> []"
    and "tables n = Some T"
    and "apply_filter L T (Some (or_empty (filter_spec step1))) = Inr C"
  shows "\<exists>r1 context1.
      execute_cohort_filter_step L step1 tables context = Inr (r1, context1) \<and>
      current_cohort context1 = Some C \<and>
      execute_feature_descriptives_step L step2 tables context1 =
        (case describe_feature L step2 C ''current_cohort'' of
           Inl e \<Rightarrow> Inl e
         | Inr r2 \<Rightarrow> Inr (r2, context1))"
  unfolding cohort_step_success[OF assms, of "context"]
  by (simp add: execute_feature_descriptives_step_def descriptives_source_def)

theorem cohort_then_descriptives_witness:
  "execute_feature_descriptives_step sample_lib tmb_step sample_tables
       (snd (projr (execute_cohort_filter_step sample_lib stage4_step sample_tables no_context))) =
     Inr ([(''step_id'', PInt 2), (''name'', PStr ''tmb''),
           (''tool'', PStr ''feature_descriptives''),
           (''status'', PStr ''success''), (''source'', PStr ''current_cohort''),
           (''feature'', PStr ''TMB''),
           (''metrics'', PDict [(''count'', PInt 1), (''mean'', PFloat 2), (''std'', PNone),
                   (''min'', PFloat 2), (''max'', PFloat 2), (''median'', PFloat 2),
                   (''iqr'', PList [PFloat 2, PFloat 2])])], stage4_context)
   \<and> length (numeric_values sample_lib (column patients ''TMB'')) = 2"
proof -
  have ne: "''patients'' \<noteq> []" by simp
  from cohort_then_descriptives
         [OF stage4_pick(1) ne stage4_tables(1) stage4_filter_patients, of no_context tmb_step]
  obtain r1 context1 where
    run: "execute_cohort_filter_step sample_lib stage4_step sample_tables no_context =
            Inr (r1, context1)"
    and desc: "execute_feature_descriptives_step sample_lib tmb_step sample_tables context1 =
        (case describe_feature sample_lib tmb_step stage4_cohort ''current_cohort'' of
           Inl e \<Rightarrow> Inl e
         | Inr r2 \<Rightarrow> Inr (r2, context1))"
    by blast
  from run have ctx: "context1 = stage4_context" by (simp add: stage4_run)
  have col: "column stage4_cohort ''TMB'' = [Num 2, NaN]"
    by (simp add: column_def stage4_cohort_def patients_def cell_at_def)
  have n2: "numeric_values sample_lib (column stage4_cohort ''TMB'') = [2]"
    by (simp add: col numeric_values_def to_numeric_def)
  have nb: "\<not> bool_series (column stage4_cohort ''TMB'')"
    by (simp add: col bool_series_def is_bool_def)
  have fl: "to_float sample_lib 2 = 2" by (simp add: sample_lib_def)
  have d: "describe_feature sample_lib tmb_step stage4_cohort ''current_cohort'' =
      Inr [(''step_id'', PInt 2), (''name'', PStr ''tmb''),
           (''tool'', PStr ''feature_descriptives''),
           (''status'', PStr ''success''), (''source'', PStr ''current_cohort''),
           (''feature'', PStr ''TMB''),
           (''metrics'', PDict [(''count'', PInt 1), (''mean'', PFloat 2), (''std'', PNone),
                   (''min'', PFloat 2), (''max'', PFloat 2), (''median'', PFloat 2),
                   (''iqr'', PList [PFloat 2, PFloat 2])])]"
    by (simp add: describe_feature_def tmb_step_def n2 nb fl quantile_single mean_single
          std_single)
       (simp add: stage4_cohort_def patients_def)
  have raw: "length (numeric_values sample_lib (column patients ''TMB'')) = 2"
    by (simp add: numeric_values_def column_def patients_def cell_at_def to_numeric_def)
  from run desc ctx d raw show ?thesis by simp
qed

section \<open>Properties of the pipeline\<close>

lemma over_None [simp]: "over x None = x"
  by (simp add: over_def)

lemma over_Some [simp]: "over x (Some v) = Some v"
  by (simp add: over_def)

lemma merge_no_keys_simps:
  "merge_state s (no_keys\<lparr>oncologist_view := Some view\<rparr>) = s\<lparr>oncologist_view := Some view\<rparr>"
  "merge_state s (no_keys\<lparr>plan := Some p\<rparr>) = s\<lparr>plan := Some p\<rparr>"
  "merge_state s (no_keys\<lparr>final_answer := Some a\<rparr>) = s\<lparr>final_answer := Some a\<rparr>"
  "merge_state s (no_keys\<lparr>execution_result := Some er, analyst_error := Some m\<rparr>) =
     s\<lparr>execution_result := Some er, analyst_error := Some m\<rparr>"
  "merge_state s (no_keys\<lparr>execution_result := Some er, analyst_generated_code := Some c\<rparr>) =
     s\<lparr>execution_result := Some er, analyst_generated_code := Some c\<rparr>"
  "merge_state s (no_keys\<lparr>execution_result := Some er, analyst_generated_code := Some c,
       analyst_error := Some m\<rparr>) =
     s\<lparr>execution_result := Some er, analyst_generated_code := Some c, analyst_error := Some m\<rparr>"
  by (simp_all add: merge_state_def no_keys_def)

lemma graph_until_planner:
  assumes "user_query state = Some q"
    and "generate_oncologist_view B q = Inr view"
    and "generate_planner_plan B q view = Inr p"
  shows "then_node (then_node (Inr state) (oncologist_node B)) (planner_node B) =
           Inr (state\<lparr>oncologist_view := Some view, plan := Some p\<rparr>)"
  using assms
  by (simp add: then_node_def oncologist_node_def planner_node_def merge_no_keys_simps)

lemma analyst_execution_fault:
  assumes "user_query s = Some q"
    and "generate_analyst_code B q (get_or_empty (oncologist_view s)) (get_or_empty (plan s)) =
           Inr code"
    and "run_generated B code = Inl (PyException c msg)"
  shows "analyst_node_smart L B s =
       Inr (no_keys
         \<lparr>execution_result := Some
            [(''steps'', PList []),
             (''overall_status'', PStr ''failed''),
             (''notes'', PStr ''Execution of generated analysis code failed.''),
             (''error'', PStr msg),
             (''generated_code'', PStr (take 4000 code))],
          analyst_generated_code := Some (take 4000 code),
          analyst_error := Some msg\<rparr>)"
  using assms by (simp add: analyst_node_smart_def)

lemma analyst_execution_base_fault:
  assumes "user_query s = Some q"
    and "generate_analyst_code B q (get_or_empty (oncologist_view s)) (get_or_empty (plan s)) =
           Inr code"
    and "run_generated B code = Inl (PyBaseException c msg)"
  shows "analyst_node_smart L B s = Inl (PyBaseException c msg)"
  using assms by (simp add: analyst_node_smart_def)

lemma invoke_graph_base_fault:
  assumes "user_query state = Some q"
    and "generate_oncologist_view B q = Inr view"
    and "generate_planner_plan B q view = Inr p"
    and "generate_analyst_code B q view p = Inr code"
    and "run_generated B code = Inl (PyBaseException c msg)"
  shows "invoke_graph L B True state = Inl (PyBaseException c msg)"
proof -
  have "analyst_node_smart L B (state\<lparr>oncologist_view := Some view, plan := Some p\<rparr>) =
          Inl (PyBaseException c msg)"
    by (rule analyst_execution_base_fault[where q = q and code = code])
       (simp_all add: assms get_or_empty_def)
  then show ?thesis
    unfolding invoke_graph_def graph_until_planner[OF assms(1-3)] if_True
    by (simp add: then_node_def)
qed

lemma analyst_execution_unprintable_fault:
  assumes "user_query s = Some q"
    and "generate_analyst_code B q (get_or_empty (oncologist_view s)) (get_or_empty (plan s)) =
           Inr code"
    and "run_generated B code = Inl (PyExceptionNoStr c e)"
  shows "analyst_node_smart L B s = Inl e"
  using assms by (simp add: analyst_node_smart_def)

lemma invoke_graph_unprintable_fault:
  assumes "user_query state = Some q"
    and "generate_oncologist_view B q = Inr view"
    and "generate_planner_plan B q view = Inr p"
    and "generate_analyst_code B q view p = Inr code"
    and "run_generated B code = Inl (PyExceptionNoStr c e)"
  shows "invoke_graph L B True state = Inl e"
proof -
  have "analyst_node_smart L B (state\<lparr>oncologist_view := Some view, plan := Some p\<rparr>) = Inl e"
    by (rule analyst_execution_unprintable_fault[where q = q and code = code and c = c])
       (simp_all add: assms get_or_empty_def)
  then show ?thesis
    unfolding invoke_graph_def graph_until_planner[OF assms(1-3)] if_True
    by (simp add: then_node_def)
qed

lemma invoke_graph_fault:
  assumes "user_query state = Some q"
    and "generate_oncologist_view B q = Inr view"
    and "generate_planner_plan B q view = Inr p"
    and "generate_analyst_code B q view p = Inr code"
    and "run_generated B code = Inl (PyException c msg)"
  shows "invoke_graph L B True state =
       (case generate_writer_answer B q view p (PDict
            [(''steps'', PList []),
             (''overall_status'', PStr ''failed''),
             (''notes'', PStr ''Execution of generated analysis code failed.''),
             (''error'', PStr msg),
             (''generated_code'', PStr (take 4000 code))]) of
          Inl e \<Rightarrow> Inl e
        | Inr answer \<Rightarrow>
            Inr (state
              \<lparr>oncologist_view := Some view, plan := Some p,
               execution_result := Some
                 [(''steps'', PList []),
                  (''overall_status'', PStr ''failed''),
                  (''notes'', PStr ''Execution of generated analysis code failed.''),
                  (''error'', PStr msg),
                  (''generated_code'', PStr (take 4000 code))],
               analyst_generated_code := Some (take 4000 code),
               analyst_error := Some msg,
               final_answer := Some answer\<rparr>))"
proof -
  have "analyst_node_smart L B (state\<lparr>oncologist_view := Some view, plan := Some p\<rparr>) =
       Inr (no_keys
         \<lparr>execution_result := Some
            [(''steps'', PList []),
             (''overall_status'', PStr ''failed''),
             (''notes'', PStr ''Execution of generated analysis code failed.''),
             (''error'', PStr msg),
             (''generated_code'', PStr (take 4000 code))],
          analyst_generated_code := Some (take 4000 code),
          analyst_error := Some msg\<rparr>)"
    by (rule analyst_execution_fault[where q = q and c = c])
       (simp_all add: assms get_or_empty_def)
  then show ?thesis
    unfolding invoke_graph_def graph_until_planner[OF assms(1-3)] if_True
    using assms(1)
    by (simp add: then_node_def writer_node_def get_or_empty_def merge_no_keys_simps
          split: sum.splits)
qed

lemma sample_backend_calls:
  "user_query query_state = Some ''How many stage 4 patients have TMB data?''"
  "generate_oncologist_view faulty_code_backend q = Inr sample_view"
  "generate_planner_plan faulty_code_backend q view = Inr sample_plan"
  "generate_analyst_code faulty_code_backend q view p = Inr ''def run_analysis(): return 1 / 0''"
  "generate_writer_answer faulty_code_backend q view p r = Inr ''The analysis could not be run.''"
  "run_generated faulty_code_backend code =
     Inl (PyException ''ZeroDivisionError'' ''division by zero'')"
  by (simp_all add: query_state_def no_keys_def faulty_code_backend_def run_generated_def)

lemma silent_backend_calls:
  "generate_oncologist_view silent_writer_backend q = Inr sample_view"
  "generate_planner_plan silent_writer_backend q view = Inr sample_plan"
  "generate_analyst_code silent_writer_backend q view p = Inr ''def run_analysis(): return 1 / 0''"
  "generate_writer_answer silent_writer_backend q view p r = Inr []"
  "run_generated silent_writer_backend code =
     Inl (PyException ''ZeroDivisionError'' ''division by zero'')"
  by (simp_all add: silent_writer_backend_def faulty_code_backend_def run_generated_def)

lemma unprintable_backend_calls:
  "generate_oncologist_view unprintable_fault_backend q = Inr sample_view"
  "generate_planner_plan unprintable_fault_backend q view = Inr sample_plan"
  "generate_analyst_code unprintable_fault_backend q view p =
     Inr ''def run_analysis(): return 1 / 0''"
  "run_generated unprintable_fault_backend code = Inl (PyExceptionNoStr ''ValueError'' int_too_long)"
  by (simp_all add: unprintable_fault_backend_def faulty_code_backend_def run_generated_def)

lemma exiting_backend_calls:
  "generate_oncologist_view exiting_code_backend q = Inr sample_view"
  "generate_planner_plan exiting_code_backend q view = Inr sample_plan"
  "generate_analyst_code exiting_code_backend q view p = Inr ''def run_analysis(): return 1 / 0''"
  "run_generated exiting_code_backend code = Inl (PyBaseException ''SystemExit'' ''1'')"
  by (simp_all add: exiting_code_backend_def faulty_code_backend_def run_generated_def)

text \<open>
  C1 says that after a fault of the generated procedure the pipeline yields a non-empty
  \<open>final_answer\<close> and that the fault is never propagated. The answer is the text the
  writer's completion returns, and here it returns the empty text; a procedure that calls
  \<^verbatim>\<open>sys.exit(1)\<close> raises \<^verbatim>\<open>SystemExit\<close>, which \<^verbatim>\<open>except Exception\<close> does not
  catch, so it leaves \<^verbatim>\<open>graph.invoke\<close>; and after \<^verbatim>\<open>raise ValueError(10**5000)\<close> the
  handler's own \<^verbatim>\<open>str(e)\<close> raises, and that exception leaves \<^verbatim>\<open>graph.invoke\<close>.
\<close>

theorem execution_fault_empty_answer_or_exit:
  "final_answer (projr (invoke_graph sample_lib silent_writer_backend True query_state)) = Some []
   \<and> invoke_graph sample_lib exiting_code_backend True query_state =
       Inl (PyBaseException ''SystemExit'' ''1'')
   \<and> invoke_graph sample_lib unprintable_fault_backend True query_state = Inl int_too_long"
  by (simp add: invoke_graph_fault[OF sample_backend_calls(1) silent_backend_calls(1,2,3,5)]
        invoke_graph_base_fault[OF sample_backend_calls(1) exiting_backend_calls]
        invoke_graph_unprintable_fault[OF sample_backend_calls(1) unprintable_backend_calls]
        silent_backend_calls(4))

text \<open>
  C1, as the code has it: when the generated code raises an \<^verbatim>\<open>Exception\<close> whose
  \<^verbatim>\<open>str(e)\<close> can be formed, while it is executed or called (or defines no callable
  \<^verbatim>\<open>run_analysis\<close>), the analyst stage catches it and returns an execution result
  whose \<open>overall_status\<close> is \<^verbatim>\<open>failed\<close>, with that text under \<open>error\<close>; the
  pipeline goes on to the writer stage, which is called with that result, and
  \<open>final_answer\<close> is the text the writer returns (if the writer raises, the exception
  leaves the pipeline).
\<close>

theorem execution_fault_reaches_writer:
  assumes "user_query state = Some q"
    and "generate_oncologist_view B q = Inr view"
    and "generate_planner_plan B q view = Inr p"
    and "generate_analyst_code B q view p = Inr code"
    and "run_generated B code = Inl (PyException c msg)"
  shows "(let failed =
            [(''steps'', PList []),
             (''overall_status'', PStr ''failed''),
             (''notes'', PStr ''Execution of generated analysis code failed.''),
             (''error'', PStr msg),
             (''generated_code'', PStr (take 4000 code))]
          in
            analyst_node_smart L B (state\<lparr>oncologist_view := Some view, plan := Some p\<rparr>) =
              Inr (no_keys
                \<lparr>execution_result := Some failed,
                 analyst_generated_code := Some (take 4000 code),
                 analyst_error := Some msg\<rparr>)
            \<and> invoke_graph L B True state =
              (case generate_writer_answer B q view p (PDict failed) of
                 Inl e \<Rightarrow> Inl e
               | Inr answer \<Rightarrow>
                   Inr (state
                     \<lparr>oncologist_view := Some view, plan := Some p,
                      execution_result := Some failed,
                      analyst_generated_code := Some (take 4000 code),
                      analyst_error := Some msg,
                      final_answer := Some answer\<rparr>)))"
proof -
  have "analyst_node_smart L B (state\<lparr>oncologist_view := Some view, plan := Some p\<rparr>) =
       Inr (no_keys
         \<lparr>execution_result := Some
            [(''steps'', PList []),
             (''overall_status'', PStr ''failed''),
             (''notes'', PStr ''Execution of generated analysis code failed.''),
             (''error'', PStr msg),
             (''generated_code'', PStr (take 4000 code))],
          analyst_generated_code := Some (take 4000 code),
          analyst_error := Some msg\<rparr>)"
    by (rule analyst_execution_fault[where q = q and c = c])
       (simp_all add: assms get_or_empty_def)
  with invoke_graph_fault[OF assms, of L] show ?thesis by (simp add: Let_def)
qed

theorem execution_fault_reaches_writer_witness:
  "map_of (the (execution_result (projr (invoke_graph sample_lib faulty_code_backend True query_state))))
       ''overall_status'' = Some (PStr ''failed'')
   \<and> final_answer (projr (invoke_graph sample_lib faulty_code_backend True query_state)) =
       Some ''The analysis could not be run.''"
  using execution_fault_reaches_writer[OF sample_backend_calls(1,2,3,4,6), of sample_lib]
  by (simp add: Let_def sample_backend_calls(5))





lemma long_int_limit: "int_max_str \<le> long_int"
  unfolding int_max_str_def long_int_def by (rule power_increasing) simp_all

lemma analyst_normalization:
  assumes "user_query state = Some q"
    and "generate_analyst_code B q (get_or_empty (oncologist_view state))
           (get_or_empty (plan state)) = Inr code"
    and "run_generated B code = Inr result"
  shows "analyst_node_smart L B state =
     (case result of
        PDict d \<Rightarrow>
          Inr (no_keys
            \<lparr>execution_result := Some
               [(''steps'', (case map_of d ''steps'' of None \<Rightarrow> PList [] | Some v \<Rightarrow> v)),
                (''overall_status'',
                   (case map_of d ''overall_status'' of None \<Rightarrow> PStr ''success'' | Some v \<Rightarrow> v)),
                (''notes'', PStr ''Analyst executed a dynamically generated analysis script.'')],
             analyst_generated_code := Some (take 4000 code)\<rparr>)
      | _ \<Rightarrow>
          (case py_str L result of
             Inl e \<Rightarrow> Inl e
           | Inr raw \<Rightarrow>
               Inr (no_keys
                 \<lparr>execution_result := Some
                    [(''steps'', PList []),
                     (''overall_status'', PStr ''failed''),
                     (''notes'', PStr ''Generated analysis code did not return a dict.''),
                     (''raw_return'', PStr raw),
                     (''generated_code'', PStr (take 4000 code))],
                  analyst_generated_code := Some (take 4000 code)\<rparr>)))"
  using assms
  by (cases result)
     (simp_all add: analyst_node_smart_def normalize_result_def split: sum.splits)

text \<open>
  C3: for every value the generated procedure returns, the analyst stage turns a value
  that is not a dictionary into a failed result that keeps \<^verbatim>\<open>str(result)\<close>, without
  raising. The stage does so wherever \<^verbatim>\<open>str(result)\<close> returns
  (\<open>analyst_normalization\<close>), but line 121 stands after both \<^verbatim>\<open>try\<close> statements:
  when the procedure returns the integer \<^verbatim>\<open>10**5000\<close>, \<^verbatim>\<open>str(result)\<close> raises
  \<^verbatim>\<open>ValueError\<close> and the exception leaves the stage.
\<close>

theorem long_int_result_raises:
  "analyst_node_smart sample_lib long_int_backend query_state = Inl int_too_long"
proof -
  have g: "generate_analyst_code long_int_backend q v p = Inr ''def run_analysis(): return 1 / 0''"
    for q v p
    by (simp add: long_int_backend_def faulty_code_backend_def)
  have r: "run_generated long_int_backend code = Inr (PInt long_int)" for code
    by (simp add: run_generated_def long_int_backend_def)
  have s: "py_str sample_lib (PInt long_int) = Inl int_too_long"
    by (simp add: py_str_def sample_lib_def long_int_limit)
  show ?thesis
    by (simp add: analyst_normalization[OF sample_backend_calls(1) g r] s)
qed

section \<open>Properties of the loaders\<close>

text \<open>
  C8 says that the load of the table store fails with a schema error when the required
  identifier column is absent, fails with a not-found error when the path does not exist,
  and otherwise returns the table. \<^verbatim>\<open>_load_table\<close> takes a path and nothing else: the
  frame of \<^verbatim>\<open>data/patients.tsv\<close> has no column \<^verbatim>\<open>PATIENT_ID\<close>, the identifier column
  of its configuration, and is returned. A path that was loaded before is answered from
  the cache, whether or not the file still exists. And for a file that exists and that
  \<^verbatim>\<open>read_csv\<close> cannot read, here an empty one, no table is returned:
  \<^verbatim>\<open>EmptyDataError\<close> leaves the function.
\<close>

theorem load_table_no_schema_check:
  "id_column patients_config \<notin> set (columns patients)
   \<and> load_table sample_lib sample_fs [] (cfg_path patients_config) =
       (Inr patients, [(''data/patients.tsv'', patients)])
   \<and> load_table sample_lib Map.empty [(''data/samples.tsv'', samples)] ''data/samples.tsv'' =
       (Inr samples, [(''data/samples.tsv'', samples)])
   \<and> load_table sample_lib sample_fs [] ''data/empty.tsv'' =
       (Inl (PyException ''EmptyDataError'' ''No columns to parse from file''), [])"
  by (simp add: patients_config_def patients_def load_table_def read_csv_def sample_fs_def)

text \<open>
  C8, as the code has it: \<^verbatim>\<open>_load_table\<close> answers a path that is in its cache from the
  cache. For a path that is not, it fails with \<^verbatim>\<open>FileNotFoundError\<close> when the path does
  not exist, and otherwise does what \<^verbatim>\<open>pd.read_csv\<close> does with the file: it raises the
  exception of \<^verbatim>\<open>read_csv\<close> when the file cannot be read, and returns and caches the
  frame read, whatever its columns. No identifier column is looked at. The loader of the
  ingestion, \<^verbatim>\<open>_load_table_rows_as_text\<close>, is the one that fails with
  \<^verbatim>\<open>FileNotFoundError\<close> when the path does not exist and with \<^verbatim>\<open>ValueError\<close> when
  the identifier column of the configuration is absent from the frame read.
\<close>

theorem load_table_outcomes:
  "(\<forall>t. map_of cache path = Some t \<longrightarrow> fst (load_table L fs cache path) = Inr t)
   \<and> (map_of cache path = None \<and> fs path = None \<longrightarrow>
       load_table L fs cache path =
         (Inl (PyException ''FileNotFoundError''
                 (''[Errno 2] No such file or directory: '' @ repr_str L path)), cache))
   \<and> (\<forall>e. map_of cache path = None \<and> fs path = Some (Inl e) \<longrightarrow>
          load_table L fs cache path = (Inl e, cache))
   \<and> (\<forall>t. map_of cache path = None \<and> fs path = Some (Inr t) \<longrightarrow>
          load_table L fs cache path = (Inr t, take 16 ((path, t) # cache)))
   \<and> (fs (path_str L (cfg_path table_cfg)) = None \<longrightarrow>
          load_table_rows_as_text L fs table_cfg =
            Inl (PyException ''FileNotFoundError''
                   (''TSV file not found: '' @ path_str L (cfg_path table_cfg))))
   \<and> (\<forall>t. fs (path_str L (cfg_path table_cfg)) = Some (Inr t) \<and>
            id_column table_cfg \<notin> set (columns t) \<longrightarrow>
          load_table_rows_as_text L fs table_cfg =
            Inl (PyException ''ValueError''
                   (''id_column='' @ [CHR 0x27] @ id_column table_cfg @ [CHR 0x27]
                      @ '' not in columns for table '' @ [CHR 0x27] @ cfg_name table_cfg
                      @ [CHR 0x27] @ '': '' @ str_of_strings L (columns t))))"
  by (auto simp: load_table_def read_csv_def load_table_rows_as_text_def Let_def
        split: option.splits)

theorem load_table_outcomes_witness:
  "load_table sample_lib sample_fs [] ''data/missing.tsv'' =
     (Inl (PyException ''FileNotFoundError''
             (''[Errno 2] No such file or directory: '' @ [CHR 0x27] @ ''data/missing.tsv''
                @ [CHR 0x27])), [])
   \<and> load_table sample_lib sample_fs [] ''data/patients.tsv'' =
       (Inr patients, [(''data/patients.tsv'', patients)])
   \<and> load_table sample_lib sample_fs [] ''data/empty.tsv'' =
       (Inl (PyException ''EmptyDataError'' ''No columns to parse from file''), [])
   \<and> fst (load_table sample_lib Map.empty [(''data/samples.tsv'', samples)]
            ''data/samples.tsv'') = Inr samples
   \<and> load_table_rows_as_text sample_lib sample_fs
         (patients_config\<lparr>cfg_path := ''data/missing.tsv''\<rparr>) =
       Inl (PyException ''FileNotFoundError'' ''TSV file not found: data/missing.tsv'')
   \<and> (\<exists>m. load_table_rows_as_text sample_lib sample_fs patients_config =
             Inl (PyException ''ValueError'' m))"
proof -
  have a: "map_of ([] :: table_cache) p = None"
    "map_of [(''data/samples.tsv'', samples)] ''data/samples.tsv'' = Some samples" for p
    by simp_all
  have b: "sample_fs ''data/missing.tsv'' = None"
    "sample_fs ''data/patients.tsv'' = Some (Inr patients)"
    "sample_fs ''data/empty.tsv'' =
       Some (Inl (PyException ''EmptyDataError'' ''No columns to parse from file''))"
    by (simp_all add: sample_fs_def)
  have c: "cfg_path (patients_config\<lparr>cfg_path := ''data/missing.tsv''\<rparr>) = ''data/missing.tsv''"
    "cfg_path patients_config = ''data/patients.tsv''"
    "id_column patients_config \<notin> set (columns patients)"
    by (simp_all add: patients_config_def patients_def)
  have d: "path_str sample_lib p = p" "repr_str sample_lib p = [CHR 0x27] @ p @ [CHR 0x27]" for p
    by (simp_all add: sample_lib_def)
  from load_table_outcomes
         [of "[]" "''data/missing.tsv''" sample_lib sample_fs
            "patients_config\<lparr>cfg_path := ''data/missing.tsv''\<rparr>"]
       load_table_outcomes
         [of "[]" "''data/patients.tsv''" sample_lib sample_fs patients_config]
       load_table_outcomes
         [of "[]" "''data/empty.tsv''" sample_lib sample_fs patients_config]
       load_table_outcomes
         [of "[(''data/samples.tsv'', samples)]" "''data/samples.tsv''" sample_lib Map.empty
            patients_config]
       a b c d
  show ?thesis by simp
qed

end
